theory Spec2Isabelle
  imports Main
begin

section \<open>Column headers of an assessment (module createColumnHeaders)\<close>

text \<open>
  The module walks the ordered subtests of an assessment and pushes, for each one,
  \<open>{header, key}\<close> objects onto one array. This theory embeds \<open>createColumnHeaders\<close>
  and its eight helper functions and proves properties of them.

  Scope of the model.
  \<^item> Strings are lists of characters, one \<open>char\<close> for one UTF-16 code unit below 256.
  \<^item> Counters are natural numbers; a template literal \<open>${n}\<close> prints a number in decimal
    (JavaScript does so for every integer below \<open>10^21\<close>).
  \<^item> Documents are records of the fields the code reads. A field that the code only
    interpolates into a template literal is a string; a field that the code tests for
    truthiness is a \<open>string option\<close> (\<open>None\<close> for an absent field). Fields that the
    code dereferences without a test (\<open>levels\<close>, \<open>options\<close>, \<open>data.items\<close>, \<open>name\<close>) are
    taken to be present, so the \<open>TypeError\<close> of a malformed document is outside the model.
  \<^item> The functions of \<open>dbQuery\<close> are a parameter: a record of the answers the
    database gives, each either a failure or a value.
  \<^item> One invocation is modelled. The loop variables that the source leaves global
    (\<open>data\<close>, \<open>doc\<close>, \<open>sub\<close>, \<open>items\<close>, \<open>i\<close>) are not assigned by two functions that are
    active at the same time within one invocation.
\<close>

subsection \<open>Strings and numbers\<close>

fun showNat :: "nat \<Rightarrow> string" where
  "showNat n = (if n < 10 then [''0123456789'' ! n]
                else showNat (n div 10) @ [''0123456789'' ! (n mod 10)])"

declare showNat.simps [simp del]

text \<open>The expression \<open>count > 0 ? `_${count}` : ''\<close>, which every function repeats.\<close>

definition suffixOf :: "int \<Rightarrow> string" where
  "suffixOf count = (if count > 0 then ''_'' @ showNat (nat count) else '''')"

text \<open>\<open>String.prototype.toLowerCase\<close> on code units below 256: the letters A to Z and
  the capital letters of U+00C0 to U+00DE (without the multiplication sign U+00D7) move
  up by 32.\<close>

definition lowerChar :: "char \<Rightarrow> char" where
  "lowerChar c = (let n = (of_char c :: nat) in
     if (65 \<le> n \<and> n \<le> 90) \<or> (192 \<le> n \<and> n \<le> 222 \<and> n \<noteq> 215)
     then char_of (n + 32) else c)"

definition toLowerCase :: "string \<Rightarrow> string" where
  "toLowerCase s = map lowerChar s"

text \<open>The class \<open>\s\<close> on code units below 256: tab, line feed, vertical tab, form feed,
  carriage return, space and the no-break space U+00A0.\<close>

definition isWhitespace :: "char \<Rightarrow> bool" where
  "isWhitespace c = (let n = (of_char c :: nat) in (9 \<le> n \<and> n \<le> 13) \<or> n = 32 \<or> n = 160)"

text \<open>\<open>s.replace(/\s/g, '_')\<close>.\<close>

definition replaceWhitespace :: "string \<Rightarrow> string" where
  "replaceWhitespace s = map (\<lambda>c. if isWhitespace c then CHR ''_'' else c) s"

subsection \<open>Data\<close>

record column =
  header :: string
  key :: string

text \<open>Each pushed object carries a mark that is not part of the program's data: it
  records whether the push is the one whose header is the template
  \<open>timestamp_${subtestCounts.timestampCount}\<close>, and with which counter value. No header
  or key is computed from a mark; the array the program returns is the pushes with the
  marks erased.\<close>

datatype mark = Plain | Stamp nat

type_synonym pushed = "mark \<times> column"

definition push :: "string \<Rightarrow> string \<Rightarrow> pushed" where
  "push h k = (Plain, \<lparr>header = h, key = k\<rparr>)"

definition pushTimestamp :: "string \<Rightarrow> nat \<Rightarrow> pushed" where
  "pushTimestamp docId n =
     (Stamp n, \<lparr>header = ''timestamp_'' @ showNat n,
               key = docId @ ''.timestamp_'' @ showNat n\<rparr>)"

record subtestCounts =
  locationCount :: nat
  datetimeCount :: nat
  idCount :: nat
  consentCount :: nat
  gpsCount :: nat
  cameraCount :: nat
  surveyCount :: nat
  gridCount :: nat
  timestampCount :: nat

text \<open>The document \<open>retrieveDoc\<close> returns.\<close>

record assessment =
  assessmentId :: "string option"

text \<open>A subtest document: \<open>s_id\<close> is the field \<open>_id\<close>, \<open>s_assessmentId\<close> the field
  \<open>assessmentId\<close>.\<close>

record subtest =
  prototype :: string
  s_id :: string
  levels :: "string list"
  subtestId :: string
  variableName :: string
  s_assessmentId :: "string option"
  curriculumId :: "string option"

text \<open>A question document of a survey: \<open>q_name\<close>, \<open>q_order\<close> and \<open>q_options\<close> are its
  fields \<open>name\<close>, \<open>order\<close> (a number) and \<open>options\<close> (an array, of which the code reads the
  length only). \<open>q_other k\<close> is the value of any other property \<open>k\<close> of the document when
  it is a string, and \<open>None\<close> when the document has no property \<open>k\<close>.\<close>

record question =
  q_name :: string
  q_order :: int
  q_options :: "string list"
  q_other :: "string \<Rightarrow> string option"

text \<open>An entry of \<open>subtestData\<close> in a result document, with its \<open>data\<close> object and the
  items of a grid.\<close>

record item =
  itemLabel :: string

record entryData =
  variable_name :: "string option"
  items :: "item list"

record entry =
  e_prototype :: string
  e_subtestId :: string
  e_name :: string
  e_data :: entryData

text \<open>A row of \<open>getResults\<close>: the code reads \<open>item.doc.subtestData\<close>.\<close>

record resultDoc =
  subtestData :: "entry list"

text \<open>The four functions of \<open>dbQuery\<close> that the module calls, at the database the
  caller names with \<open>dbUrl\<close>. A rejected promise is \<open>Inl\<close> of the failure, whose type
  \<open>'e\<close> the module never inspects. \<open>getResults\<close> receives
  \<open>doc.assessmentId || doc.curriculumId\<close>, which may be undefined.\<close>

record 'e dbQuery =
  retrieveDoc :: "string \<Rightarrow> 'e + assessment"
  getSubtests :: "string \<Rightarrow> 'e + subtest list"
  getQuestionBySubtestId :: "string \<Rightarrow> 'e + question list"
  getResults :: "string option \<Rightarrow> 'e + resultDoc list"

text \<open>Truthiness of a value that is a string or undefined: the empty string and
  undefined are falsy. \<open>a || b\<close> is \<open>a\<close> when \<open>a\<close> is truthy and \<open>b\<close> otherwise.\<close>

definition truthy :: "string option \<Rightarrow> bool" where
  "truthy v = (case v of None \<Rightarrow> False | Some s \<Rightarrow> s \<noteq> [])"

definition orElse :: "string option \<Rightarrow> string option \<Rightarrow> string option" where
  "orElse a b = (if truthy a then a else b)"

subsection \<open>The synchronous helper functions\<close>

definition createLocation :: "subtest \<Rightarrow> subtestCounts \<Rightarrow> pushed list" where
  "createLocation doc c =
     (let locSuffix = suffixOf (int (locationCount c)) in
      map (\<lambda>label. push (label @ locSuffix)
                         (s_id doc @ ''.'' @ toLowerCase label @ locSuffix)) (levels doc)
      @ [pushTimestamp (s_id doc) (timestampCount c)])"

definition createDatetime :: "subtest \<Rightarrow> subtestCounts \<Rightarrow> pushed list" where
  "createDatetime doc c =
     (let suffix = suffixOf (int (datetimeCount c)) in
      [push (''year'' @ suffix) (s_id doc @ ''.year'' @ suffix),
       push (''month'' @ suffix) (s_id doc @ ''.month'' @ suffix),
       push (''day'' @ suffix) (s_id doc @ ''.day'' @ suffix),
       push (''assess_time'' @ suffix) (s_id doc @ ''.assess_time'' @ suffix),
       pushTimestamp (s_id doc) (timestampCount c)])"

definition createConsent :: "subtest \<Rightarrow> subtestCounts \<Rightarrow> pushed list" where
  "createConsent doc c =
     (let suffix = suffixOf (int (consentCount c)) in
      [push (''consent'' @ suffix) (s_id doc @ ''.consent'' @ suffix),
       pushTimestamp (s_id doc) (timestampCount c)])"

definition createId :: "subtest \<Rightarrow> subtestCounts \<Rightarrow> pushed list" where
  "createId doc c =
     (let suffix = suffixOf (int (idCount c)) in
      [push (''id'' @ suffix) (s_id doc @ ''.id'' @ suffix),
       pushTimestamp (s_id doc) (timestampCount c)])"

definition createGps :: "subtest \<Rightarrow> subtestCounts \<Rightarrow> pushed list" where
  "createGps doc c =
     (let suffix = suffixOf (int (gpsCount c)) in
      [push (''latitude'' @ suffix) (s_id doc @ ''.latitude'' @ suffix),
       push (''longitude'' @ suffix) (s_id doc @ ''.longitude'' @ suffix),
       push (''accuracy'' @ suffix) (s_id doc @ ''.accuracy'' @ suffix),
       push (''altitude'' @ suffix) (s_id doc @ ''.altitude'' @ suffix),
       push (''altitudeAccuracy'' @ suffix) (s_id doc @ ''.altitudeAccuracy'' @ suffix),
       push (''heading'' @ suffix) (s_id doc @ ''.heading'' @ suffix),
       push (''speed'' @ suffix) (s_id doc @ ''.speed'' @ suffix),
       pushTimestamp (s_id doc) (timestampCount c)])"

definition createCamera :: "subtest \<Rightarrow> subtestCounts \<Rightarrow> pushed list" where
  "createCamera doc c =
     (let varName = variableName doc; suffix = suffixOf (int (cameraCount c)) in
      [push (varName @ ''_photo_captured'' @ suffix)
            (subtestId doc @ ''.'' @ varName @ ''_photo_captured'' @ suffix),
       push (varName @ ''_photo_url'' @ suffix)
            (subtestId doc @ ''.'' @ varName @ ''_photo_url'' @ suffix),
       pushTimestamp (subtestId doc) (timestampCount c)])"

subsection \<open>The call of lodash's sortBy\<close>

text \<open>\<open>createSurvey\<close> calls \<open>_.sortBy(questions, [id, 'order'])\<close>. lodash is a library
  outside the repository; what follows is its version 4 behaviour for the values of this
  model. Each string of the array is a property path; \<open>sortBy\<close> reads the two paths in
  every document, compares the documents by the first value, then by the second, then by
  their position in the input, and returns the documents in that order.

  The first path is the value of the variable \<open>id\<close>, that is the \<open>_id\<close> of the subtest,
  not a fixed name.\<close>

datatype jsval = Undefined | Num int | Str string

text \<open>The value at path \<open>k\<close> of a question document. (The path \<open>options\<close>, an array,
  has no value in \<open>jsval\<close> and is not modelled.)\<close>

definition property :: "string \<Rightarrow> question \<Rightarrow> jsval" where
  "property k q =
     (if k = ''name'' then Str (q_name q)
      else if k = ''order'' then Num (q_order q)
      else (case q_other q k of None \<Rightarrow> Undefined | Some s \<Rightarrow> Str s))"

text \<open>JavaScript's \<open><\<close> on two strings compares code units from the left.\<close>

fun strLess :: "string \<Rightarrow> string \<Rightarrow> bool" where
  "strLess [] [] = False"
| "strLess [] (y # ys) = True"
| "strLess (x # xs) [] = False"
| "strLess (x # xs) (y # ys) =
     ((of_char x :: nat) < of_char y \<or> (x = y \<and> strLess xs ys))"

text \<open>\<open>value < other\<close>. With undefined on either side the answer is false. A number
  against a string is compared in JavaScript after converting the string to a number;
  within one call of \<open>sortBy\<close> all documents are read at the same path, and in this model
  a path holds numbers in all documents or in none, so that case is never evaluated and
  is given here as false.\<close>

fun jsLess :: "jsval \<Rightarrow> jsval \<Rightarrow> bool" where
  "jsLess (Num a) (Num b) = (a < b)"
| "jsLess (Str a) (Str b) = strLess a b"
| "jsLess _ _ = False"

text \<open>lodash's \<open>compareAscending\<close>, without its cases for null, symbols and NaN:
  an undefined value sorts after every defined one.\<close>

definition compareAscending :: "jsval \<Rightarrow> jsval \<Rightarrow> int" where
  "compareAscending v other =
     (if v \<noteq> other then
        (if jsLess other v \<or> v = Undefined then 1
         else if jsLess v other \<or> other = Undefined then - 1
         else 0)
      else 0)"

text \<open>lodash's \<open>compareMultiple\<close> with no explicit orders, on objects
  \<open>(criteria, index, value)\<close>: the first criterion that differs decides, and the index
  decides among equal criteria.\<close>

fun compareCriteria :: "jsval list \<Rightarrow> jsval list \<Rightarrow> int" where
  "compareCriteria (a # as) (b # bs) =
     (let r = compareAscending a b in if r \<noteq> 0 then r else compareCriteria as bs)"
| "compareCriteria _ _ = 0"

definition compareMultiple ::
  "jsval list \<times> nat \<times> 'a \<Rightarrow> jsval list \<times> nat \<times> 'a \<Rightarrow> int" where
  "compareMultiple object other =
     (let r = compareCriteria (fst object) (fst other) in
      if r \<noteq> 0 then r else int (fst (snd object)) - int (fst (snd other)))"

text \<open>\<open>Array.prototype.sort\<close> with a comparison function, as an insertion sort. The
  comparison of \<open>compareMultiple\<close> never answers 0 for two different positions, so every
  correct sorting algorithm returns the same array.\<close>

fun insertSorted :: "('a \<Rightarrow> 'a \<Rightarrow> int) \<Rightarrow> 'a \<Rightarrow> 'a list \<Rightarrow> 'a list" where
  "insertSorted comparer x [] = [x]"
| "insertSorted comparer x (y # ys) =
     (if comparer x y \<le> 0 then x # y # ys else y # insertSorted comparer x ys)"

definition arraySort :: "('a \<Rightarrow> 'a \<Rightarrow> int) \<Rightarrow> 'a list \<Rightarrow> 'a list" where
  "arraySort comparer xs = foldr (insertSorted comparer) xs []"

definition sortBy :: "question list \<Rightarrow> string list \<Rightarrow> question list" where
  "sortBy collection iteratees =
     map (\<lambda>object. snd (snd object))
       (arraySort compareMultiple
          (map (\<lambda>(index, v). (map (\<lambda>path. property path v) iteratees, index, v))
               (enumerate 0 collection)))"

subsection \<open>The asynchronous helper functions\<close>

text \<open>The body of the loop over the sorted questions.\<close>

definition surveyQuestion :: "string \<Rightarrow> string \<Rightarrow> question \<Rightarrow> pushed list" where
  "surveyQuestion id' suffix doc =
     (let optionsLen = length (q_options doc) in
      if optionsLen \<le> 2
      then [push (q_name doc @ suffix) (id' @ ''.'' @ q_name doc @ suffix)]
      else map (\<lambda>i. push (q_name doc @ ''_'' @ showNat i @ suffix)
                         (id' @ ''.'' @ q_name doc @ ''.'' @ showNat i @ suffix))
               [1 ..< Suc optionsLen])"

definition createSurvey :: "'e dbQuery \<Rightarrow> string \<Rightarrow> subtestCounts \<Rightarrow> 'e + pushed list" where
  "createSurvey db id' c =
     (let suffix = suffixOf (int (surveyCount c)) in
      case getQuestionBySubtestId db id' of
        Inl err \<Rightarrow> Inl err
      | Inr questions \<Rightarrow>
          (let sortedDoc = sortBy questions [id', ''order''] in
           Inr (concat (map (surveyQuestion id' suffix) sortedDoc)
                @ [pushTimestamp id' (timestampCount c)])))"

text \<open>The grid entries of all result documents, in the order of the results and of
  the entries within each.\<close>

definition collectGridData :: "resultDoc list \<Rightarrow> entry list" where
  "collectGridData resultDocs =
     concat (map (\<lambda>item. filter (\<lambda>v. e_prototype v = ''grid'') (subtestData item)) resultDocs)"

text \<open>\<open>sub.data.variable_name || sub.name.toLowerCase().replace(/\s/g, '_')\<close>.\<close>

definition gridVariableName :: "entry \<Rightarrow> string" where
  "gridVariableName sub =
     (if truthy (variable_name (e_data sub)) then the (variable_name (e_data sub))
      else replaceWhitespace (toLowerCase (e_name sub)))"

text \<open>What one round of the loop over \<open>gridData\<close> pushes, with the local \<open>count\<close> and
  the shared \<open>timestampCount\<close> at its start.\<close>

definition gridEntry :: "entry \<Rightarrow> nat \<Rightarrow> nat \<Rightarrow> pushed list" where
  "gridEntry sub count tc =
     (let suffix = suffixOf (int count);
          variableName = gridVariableName sub;
          col = (\<lambda>field. push (variableName @ field @ suffix)
                               (e_subtestId sub @ ''.'' @ variableName @ field @ suffix))
      in [col ''_auto_stop'', col ''_time_remain'', col ''_capture_item_at_time'',
          col ''_attempted'', col ''_time_intermediate_captured'', col ''_time_allowed'']
         @ map (\<lambda>it. col (''_'' @ itemLabel it)) (items (e_data sub))
         @ [pushTimestamp (e_subtestId sub) tc])"

text \<open>The loop \<open>for (sub of gridData)\<close>: each round appends to \<open>gridHeader\<close>, then
  increments \<open>subtestCounts.timestampCount\<close> and \<open>count\<close>.\<close>

fun gridLoop :: "entry list \<Rightarrow> nat \<Rightarrow> nat \<Rightarrow> pushed list \<Rightarrow> pushed list \<times> nat" where
  "gridLoop [] count tc gridHeader = (gridHeader, tc)"
| "gridLoop (sub # rest) count tc gridHeader =
     gridLoop rest (count + 1) (tc + 1) (gridHeader @ gridEntry sub count tc)"

text \<open>\<open>createGrid\<close> returns \<open>{ gridHeader, timestampCount }\<close>.\<close>

definition createGrid ::
  "'e dbQuery \<Rightarrow> subtest \<Rightarrow> subtestCounts \<Rightarrow> 'e + (pushed list \<times> nat)" where
  "createGrid db doc c =
     (let count = gridCount c;
          docId = orElse (s_assessmentId doc) (curriculumId doc) in
      case getResults db docId of
        Inl err \<Rightarrow> Inl err
      | Inr resultDocs \<Rightarrow> Inr (gridLoop (collectGridData resultDocs) count (timestampCount c) []))"

subsection \<open>createColumnHeaders\<close>

text \<open>The block guarded by \<open>if (item.assessmentId)\<close>.\<close>

definition leadingColumns :: "assessment \<Rightarrow> int \<Rightarrow> pushed list" where
  "leadingColumns item count =
     (if truthy (assessmentId item) then
        (let assessmentSuffix = suffixOf count; aid = the (assessmentId item) in
         [push (''assessment_id'' @ assessmentSuffix) (aid @ ''.assessmentId'' @ assessmentSuffix),
          push (''assessment_name'' @ assessmentSuffix) (aid @ ''.assessmentName'' @ assessmentSuffix),
          push (''enumerator'' @ assessmentSuffix) (aid @ ''.enumerator'' @ assessmentSuffix),
          push (''start_time'' @ assessmentSuffix) (aid @ ''.start_time'' @ assessmentSuffix),
          push (''order_map'' @ assessmentSuffix) (aid @ ''.order_map'' @ assessmentSuffix)])
      else [])"

definition initialCounts :: subtestCounts where
  "initialCounts =
     \<lparr>locationCount = 0, datetimeCount = 0, idCount = 0, consentCount = 0, gpsCount = 0,
      cameraCount = 0, surveyCount = 0, gridCount = 0, timestampCount = 0\<rparr>"

text \<open>One round of the loop \<open>for (data of subtestData)\<close> on the array \<open>assessments\<close>
  and the counters. The source has eight \<open>if\<close> statements in a row; each compares the
  same \<open>data.prototype\<close> with a different string, so at most one of them runs and the
  chain below is the same program.\<close>

definition processSubtest ::
  "'e dbQuery \<Rightarrow> pushed list \<times> subtestCounts \<Rightarrow> subtest \<Rightarrow> 'e + (pushed list \<times> subtestCounts)"
where
  "processSubtest db state data' =
     (let assessments = fst state; c = snd state in
      if prototype data' = ''location'' then
        Inr (assessments @ createLocation data' c,
             c\<lparr>locationCount := locationCount c + 1, timestampCount := timestampCount c + 1\<rparr>)
      else if prototype data' = ''datetime'' then
        Inr (assessments @ createDatetime data' c,
             c\<lparr>datetimeCount := datetimeCount c + 1, timestampCount := timestampCount c + 1\<rparr>)
      else if prototype data' = ''consent'' then
        Inr (assessments @ createConsent data' c,
             c\<lparr>consentCount := consentCount c + 1, timestampCount := timestampCount c + 1\<rparr>)
      else if prototype data' = ''id'' then
        Inr (assessments @ createId data' c,
             c\<lparr>idCount := idCount c + 1, timestampCount := timestampCount c + 1\<rparr>)
      else if prototype data' = ''survey'' then
        (case createSurvey db (s_id data') c of
           Inl err \<Rightarrow> Inl err
         | Inr surveys \<Rightarrow>
             Inr (assessments @ surveys,
                  c\<lparr>surveyCount := surveyCount c + 1, timestampCount := timestampCount c + 1\<rparr>))
      else if prototype data' = ''grid'' \<and> gridCount c = 0 then
        (case createGrid db data' c of
           Inl err \<Rightarrow> Inl err
         | Inr grid \<Rightarrow>
             Inr (assessments @ fst grid,
                  c\<lparr>gridCount := gridCount c + 1, timestampCount := snd grid\<rparr>))
      else if prototype data' = ''gps'' then
        Inr (assessments @ createGps data' c,
             c\<lparr>gpsCount := gpsCount c + 1, timestampCount := timestampCount c + 1\<rparr>)
      else if prototype data' = ''camera'' then
        Inr (assessments @ createCamera data' c,
             c\<lparr>cameraCount := cameraCount c + 1, timestampCount := timestampCount c + 1\<rparr>)
      else Inr state)"

text \<open>The loop: a failure of an awaited helper leaves the loop at once.\<close>

fun processSubtests ::
  "'e dbQuery \<Rightarrow> subtest list \<Rightarrow> pushed list \<times> subtestCounts \<Rightarrow> 'e + (pushed list \<times> subtestCounts)"
where
  "processSubtests db [] state = Inr state"
| "processSubtests db (data' # rest) state =
     (case processSubtest db state data' of
        Inl err \<Rightarrow> Inl err
      | Inr state' \<Rightarrow> processSubtests db rest state')"

text \<open>The promise chain of \<open>createColumnHeaders\<close>, with the marks of the pushes kept:
  \<open>Inl err\<close> is \<open>reject(err)\<close>, \<open>Inr\<close> is \<open>resolve(assessments)\<close>.\<close>

definition createColumnHeaders_pushes :: "'e dbQuery \<Rightarrow> string \<Rightarrow> int \<Rightarrow> 'e + pushed list" where
  "createColumnHeaders_pushes db docId count =
     (case retrieveDoc db docId of
        Inl err \<Rightarrow> Inl err
      | Inr item \<Rightarrow>
          (case getSubtests db docId of
             Inl err \<Rightarrow> Inl err
           | Inr subtestData' \<Rightarrow>
               (case processSubtests db subtestData' (leadingColumns item count, initialCounts) of
                  Inl err \<Rightarrow> Inl err
                | Inr state \<Rightarrow>
                    (let assessmentSuffix = suffixOf count in
                     Inr (fst state
                          @ [push (''end_time'' @ assessmentSuffix)
                                  (docId @ ''.end_time'' @ assessmentSuffix)])))))"

text \<open>What the caller receives: the array of \<open>{header, key}\<close> objects.\<close>

definition createColumnHeaders :: "'e dbQuery \<Rightarrow> string \<Rightarrow> int \<Rightarrow> 'e + column list" where
  "createColumnHeaders db docId count = map_sum id (map snd) (createColumnHeaders_pushes db docId count)"

text \<open>The counter values of the timestamp pushes of a sequence, in order.\<close>

definition stamps :: "pushed list \<Rightarrow> nat list" where
  "stamps ps = concat (map (\<lambda>p. case fst p of Plain \<Rightarrow> [] | Stamp n \<Rightarrow> [n]) ps)"

text \<open>A push is marked consistently when a push marked \<open>Stamp n\<close> has the header
  \<open>timestamp_n\<close>.\<close>

definition stampedRight :: "pushed \<Rightarrow> bool" where
  "stampedRight p =
     (case fst p of Plain \<Rightarrow> True | Stamp n \<Rightarrow> header (snd p) = ''timestamp_'' @ showNat n)"

subsection \<open>Example documents\<close>

text \<open>The scenario of the specification: the assessment \<open>{assessmentId: "a1"}\<close> with
  the single subtest \<open>{prototype: "gps", _id: "s1"}\<close>. A field that a JavaScript object
  lacks prints as \<open>undefined\<close> in a template literal.\<close>

definition gpsSubtest :: subtest where
  "gpsSubtest =
     \<lparr>prototype = ''gps'', s_id = ''s1'', levels = [], subtestId = ''undefined'',
      variableName = ''undefined'', s_assessmentId = None, curriculumId = None\<rparr>"

definition gpsDb :: "string dbQuery" where
  "gpsDb =
     \<lparr>retrieveDoc = (\<lambda>i. if i = ''a1'' then Inr \<lparr>assessmentId = Some ''a1''\<rparr>
                          else Inl ''not_found''),
      getSubtests = (\<lambda>i. if i = ''a1'' then Inr [gpsSubtest] else Inl ''not_found''),
      getQuestionBySubtestId = (\<lambda>i. Inr []),
      getResults = (\<lambda>i. Inr [])\<rparr>"

text \<open>A larger assessment \<open>a2\<close>: a location, a survey, two grids and a gps subtest.
  Two result documents exist for it, with one grid entry each among other entries.
  The assessment \<open>a3\<close> has the empty string as \<open>assessmentId\<close> and no subtests; \<open>a4\<close> has
  no subtest list; \<open>a5\<close> has a survey whose questions cannot be read; \<open>a6\<close> has a grid
  whose results cannot be read. The survey subtest with the \<open>_id\<close> \<open>name\<close> has two
  questions, \<open>b\<close> with order 1 and \<open>a\<close> with order 2.\<close>

definition subtestOf :: "string \<Rightarrow> string \<Rightarrow> subtest" where
  "subtestOf p i =
     \<lparr>prototype = p, s_id = i, levels = [''County'', ''School''], subtestId = i,
      variableName = ''photo'', s_assessmentId = Some ''a2'', curriculumId = None\<rparr>"

definition questionOf :: "string \<Rightarrow> int \<Rightarrow> string list \<Rightarrow> question" where
  "questionOf n k opts = \<lparr>q_name = n, q_order = k, q_options = opts, q_other = (\<lambda>p. None)\<rparr>"

definition entryOf :: "string \<Rightarrow> string \<Rightarrow> string \<Rightarrow> string option \<Rightarrow> string list \<Rightarrow> entry" where
  "entryOf p i n v labels =
     \<lparr>e_prototype = p, e_subtestId = i, e_name = n,
      e_data = \<lparr>variable_name = v, items = map (\<lambda>l. \<lparr>itemLabel = l\<rparr>) labels\<rparr>\<rparr>"

definition exampleResults :: "resultDoc list" where
  "exampleResults =
     [\<lparr>subtestData = [entryOf ''datetime'' ''d1'' ''Date'' None [],
                      entryOf ''grid'' ''g1'' ''My Grid'' (Some []) [''a'', ''b'']]\<rparr>,
      \<lparr>subtestData = [entryOf ''grid'' ''g1'' ''My Grid'' (Some ''words'') [''x'']]\<rparr>]"

definition exampleQuestions :: "question list" where
  "exampleQuestions =
     [questionOf ''colour'' 2 [''red'', ''green'', ''blue''], questionOf ''age'' 1 []]"

definition exampleDb :: "string dbQuery" where
  "exampleDb =
     \<lparr>retrieveDoc = (\<lambda>i. if i = ''a2'' then Inr \<lparr>assessmentId = Some ''a2''\<rparr>
                          else if i = ''a3'' then Inr \<lparr>assessmentId = Some []\<rparr>
                          else if i \<in> {''a4'', ''a5'', ''a6''} then Inr \<lparr>assessmentId = Some i\<rparr>
                          else Inl ''not_found''),
      getSubtests = (\<lambda>i. if i = ''a2''
                          then Inr [subtestOf ''location'' ''l1'', subtestOf ''survey'' ''s2'',
                                    subtestOf ''grid'' ''g1'', subtestOf ''grid'' ''g2'',
                                    subtestOf ''gps'' ''s1'']
                          else if i = ''a3'' then Inr []
                          else if i = ''a5''
                          then Inr [subtestOf ''id'' ''i1'', subtestOf ''survey'' ''s9'',
                                    subtestOf ''gps'' ''s1'']
                          else if i = ''a6''
                          then Inr [subtestOf ''id'' ''i1'',
                                    (subtestOf ''grid'' ''g9'')\<lparr>s_assessmentId := None\<rparr>,
                                    subtestOf ''gps'' ''s1'']
                          else Inl ''no_subtests''),
      getQuestionBySubtestId = (\<lambda>i. if i = ''s2'' then Inr exampleQuestions
                                     else if i = ''name'' then Inr
                                       [questionOf ''b'' 1 [], questionOf ''a'' 2 []]
                                     else Inl ''no_questions''),
      getResults = (\<lambda>i. if i = Some ''a2'' then Inr exampleResults else Inl ''no_results'')\<rparr>"

text \<open>What \<open>createGrid\<close> pushes for the two grid entries of \<open>exampleResults\<close>, from
  counters at zero. The first entry has the empty string as \<open>variable_name\<close>.\<close>

definition exampleGridHeader :: "pushed list" where
  "exampleGridHeader =
     [push ''my_grid_auto_stop'' ''g1.my_grid_auto_stop'',
      push ''my_grid_time_remain'' ''g1.my_grid_time_remain'',
      push ''my_grid_capture_item_at_time'' ''g1.my_grid_capture_item_at_time'',
      push ''my_grid_attempted'' ''g1.my_grid_attempted'',
      push ''my_grid_time_intermediate_captured'' ''g1.my_grid_time_intermediate_captured'',
      push ''my_grid_time_allowed'' ''g1.my_grid_time_allowed'',
      push ''my_grid_a'' ''g1.my_grid_a'',
      push ''my_grid_b'' ''g1.my_grid_b'',
      pushTimestamp ''g1'' 0,
      push ''words_auto_stop_1'' ''g1.words_auto_stop_1'',
      push ''words_time_remain_1'' ''g1.words_time_remain_1'',
      push ''words_capture_item_at_time_1'' ''g1.words_capture_item_at_time_1'',
      push ''words_attempted_1'' ''g1.words_attempted_1'',
      push ''words_time_intermediate_captured_1'' ''g1.words_time_intermediate_captured_1'',
      push ''words_time_allowed_1'' ''g1.words_time_allowed_1'',
      push ''words_x_1'' ''g1.words_x_1'',
      pushTimestamp ''g1'' 1]"

section \<open>Properties\<close>

subsection \<open>Numbering of the timestamp columns\<close>

lemma stamps_Nil: "stamps [] = []"
  by (simp add: stamps_def)

lemma stamps_append: "stamps (ps @ qs) = stamps ps @ stamps qs"
  by (simp add: stamps_def)

lemma stamps_push_Cons: "stamps (push h k # ps) = stamps ps"
  by (simp add: stamps_def push_def)

lemma stamps_pushTimestamp_Cons: "stamps (pushTimestamp d n # ps) = n # stamps ps"
  by (simp add: stamps_def pushTimestamp_def)

lemma stamps_map_push: "stamps (map (\<lambda>x. push (f x) (g x)) xs) = []"
  by (induction xs) (simp_all add: stamps_Nil stamps_push_Cons)

lemmas stamps_simps = stamps_Nil stamps_append stamps_push_Cons stamps_pushTimestamp_Cons
  stamps_map_push

lemma stamps_createLocation: "stamps (createLocation doc c) = [timestampCount c]"
  by (simp add: createLocation_def Let_def stamps_simps)

lemma stamps_createDatetime: "stamps (createDatetime doc c) = [timestampCount c]"
  by (simp add: createDatetime_def Let_def stamps_simps)

lemma stamps_createConsent: "stamps (createConsent doc c) = [timestampCount c]"
  by (simp add: createConsent_def Let_def stamps_simps)

lemma stamps_createId: "stamps (createId doc c) = [timestampCount c]"
  by (simp add: createId_def Let_def stamps_simps)

lemma stamps_createGps: "stamps (createGps doc c) = [timestampCount c]"
  by (simp add: createGps_def Let_def stamps_simps)

lemma stamps_createCamera: "stamps (createCamera doc c) = [timestampCount c]"
  by (simp add: createCamera_def Let_def stamps_simps)

lemma stamps_surveyQuestion: "stamps (surveyQuestion i s q) = []"
  by (simp add: surveyQuestion_def Let_def stamps_simps)

lemma stamps_concat_surveyQuestion: "stamps (concat (map (surveyQuestion i s) qs)) = []"
  by (induction qs) (simp_all add: stamps_Nil stamps_append stamps_surveyQuestion)

lemma stamps_createSurvey:
  "createSurvey db i c = Inr surveys \<Longrightarrow> stamps surveys = [timestampCount c]"
  by (auto simp: createSurvey_def Let_def stamps_simps stamps_concat_surveyQuestion
           split: sum.splits)

lemma stamps_gridEntry: "stamps (gridEntry sub count tc) = [tc]"
  by (simp add: gridEntry_def Let_def stamps_simps)

lemma gridLoop_stamps:
  "gridLoop es count tc hdr = (hdr', tc') \<Longrightarrow>
     tc' = tc + length es \<and> stamps hdr' = stamps hdr @ [tc ..< tc + length es]"
proof (induction es arbitrary: count tc hdr)
  case Nil
  then show ?case by simp
next
  case (Cons sub rest)
  from Cons.prems have "gridLoop rest (count + 1) (tc + 1) (hdr @ gridEntry sub count tc) = (hdr', tc')"
    by simp
  from Cons.IH [OF this]
  have tc': "tc' = tc + 1 + length rest"
    and st: "stamps hdr' = stamps (hdr @ gridEntry sub count tc) @ [tc + 1 ..< tc + 1 + length rest]"
    by simp_all
  have "[tc ..< tc + length (sub # rest)] = tc # [tc + 1 ..< tc + 1 + length rest]"
    using upt_conv_Cons [of tc "tc + length (sub # rest)"] by simp
  with tc' st show ?case
    by (simp add: stamps_append stamps_gridEntry)
qed

lemma createGrid_stamps:
  "createGrid db doc c = Inr (hdr, tc) \<Longrightarrow>
     timestampCount c \<le> tc \<and> stamps hdr = [timestampCount c ..< tc]"
  by (auto simp: createGrid_def Let_def stamps_Nil split: sum.splits dest!: gridLoop_stamps)

lemma processSubtest_stamps:
  assumes "processSubtest db (acc, c) d = Inr (acc', c')"
  shows "timestampCount c \<le> timestampCount c' \<and>
         stamps acc' = stamps acc @ [timestampCount c ..< timestampCount c']"
  using assms
  by (auto simp: processSubtest_def Let_def stamps_append stamps_createLocation
        stamps_createDatetime stamps_createConsent stamps_createId stamps_createGps
        stamps_createCamera upt_conv_Cons
      split: if_splits sum.splits prod.splits
      dest: stamps_createSurvey createGrid_stamps)


lemma processSubtests_stamps:
  "processSubtests db subs (acc, c) = Inr (acc', c') \<Longrightarrow>
     timestampCount c \<le> timestampCount c' \<and>
     stamps acc' = stamps acc @ [timestampCount c ..< timestampCount c']"
proof (induction subs arbitrary: acc c)
  case Nil
  then show ?case by simp
next
  case (Cons d rest)
  from Cons.prems obtain acc1 c1
    where step: "processSubtest db (acc, c) d = Inr (acc1, c1)"
      and rest: "processSubtests db rest (acc1, c1) = Inr (acc', c')"
    by (auto split: sum.splits)
  from processSubtest_stamps [OF step]
  have le1: "timestampCount c \<le> timestampCount c1"
    and st1: "stamps acc1 = stamps acc @ [timestampCount c ..< timestampCount c1]"
    by simp_all
  from Cons.IH [OF rest]
  have le2: "timestampCount c1 \<le> timestampCount c'"
    and st2: "stamps acc' = stamps acc1 @ [timestampCount c1 ..< timestampCount c']"
    by simp_all
  from le1 le2
  have "[timestampCount c ..< timestampCount c1] @ [timestampCount c1 ..< timestampCount c']
        = [timestampCount c ..< timestampCount c']"
    using upt_add_eq_append [of "timestampCount c" "timestampCount c1"
                                "timestampCount c' - timestampCount c1"]
    by simp
  with le1 le2 st1 st2 show ?case by simp
qed

lemma stampedRight_push: "stampedRight (push h k)"
  by (simp add: stampedRight_def push_def)

lemma stampedRight_pushTimestamp: "stampedRight (pushTimestamp d n)"
  by (simp add: stampedRight_def pushTimestamp_def)

lemmas stampedRight_simps = stampedRight_push stampedRight_pushTimestamp list_all_iff

lemma stampedRight_createSurvey:
  "createSurvey db i c = Inr surveys \<Longrightarrow> list_all stampedRight surveys"
  by (auto simp: createSurvey_def surveyQuestion_def Let_def stampedRight_simps
           split: sum.splits if_splits)

lemma stampedRight_gridEntry: "list_all stampedRight (gridEntry sub count tc)"
  by (auto simp: gridEntry_def Let_def stampedRight_simps)

lemma stampedRight_gridLoop:
  "list_all stampedRight hdr \<Longrightarrow> list_all stampedRight (fst (gridLoop es count tc hdr))"
  by (induction es arbitrary: count tc hdr) (simp_all add: stampedRight_gridEntry)

lemma stampedRight_createGrid:
  "createGrid db doc c = Inr grid \<Longrightarrow> list_all stampedRight (fst grid)"
  using stampedRight_gridLoop [of "[]"]
  by (auto simp: createGrid_def Let_def split: sum.splits)

lemma stampedRight_sync:
  "list_all stampedRight (createLocation d c)"
  "list_all stampedRight (createDatetime d c)"
  "list_all stampedRight (createConsent d c)"
  "list_all stampedRight (createId d c)"
  "list_all stampedRight (createGps d c)"
  "list_all stampedRight (createCamera d c)"
  by (auto simp: createLocation_def createDatetime_def createConsent_def createId_def
        createGps_def createCamera_def Let_def stampedRight_simps)

lemma stampedRight_processSubtest:
  assumes "processSubtest db (acc, c) d = Inr (acc', c')" and "list_all stampedRight acc"
  shows "list_all stampedRight acc'"
  using assms
  by (auto simp: processSubtest_def Let_def stampedRight_sync
      split: if_splits sum.splits
      dest: stampedRight_createSurvey stampedRight_createGrid)

lemma stampedRight_processSubtests:
  "processSubtests db subs (acc, c) = Inr (acc', c') \<Longrightarrow> list_all stampedRight acc \<Longrightarrow>
     list_all stampedRight acc'"
proof (induction subs arbitrary: acc c)
  case Nil
  then show ?case by simp
next
  case (Cons d rest)
  from Cons.prems(1) obtain acc1 c1
    where step: "processSubtest db (acc, c) d = Inr (acc1, c1)"
      and rest: "processSubtests db rest (acc1, c1) = Inr (acc', c')"
    by (auto split: sum.splits)
  from stampedRight_processSubtest [OF step Cons.prems(2)] Cons.IH [OF rest]
  show ?case by simp
qed

lemma stampedRight_leadingColumns: "list_all stampedRight (leadingColumns item count)"
  by (simp add: leadingColumns_def Let_def stampedRight_push)

lemma stamps_leadingColumns: "stamps (leadingColumns item count) = []"
  by (simp add: leadingColumns_def Let_def stamps_simps)

text \<open>Decimal numerals determine their number, so timestamp pushes with different
  numbers have different headers.\<close>

lemma showNat_nonempty: "showNat n \<noteq> []"
  by (subst showNat.simps) simp

lemma digit_inj:
  assumes "i < 10" and "j < 10" and "''0123456789'' ! i = ''0123456789'' ! j"
  shows "i = j"
proof -
  have "distinct ''0123456789''" by simp
  moreover have "i < length ''0123456789''" and "j < length ''0123456789''"
    using assms(1,2) by simp_all
  ultimately show ?thesis
    using assms(3) by (simp only: nth_eq_iff_index_eq)
qed

lemma showNat_inj: "showNat m = showNat n \<Longrightarrow> m = n"
proof (induction m arbitrary: n rule: showNat.induct)
  case (1 m)
  show ?case
  proof (cases "m < 10")
    case small_m: True
    show ?thesis
    proof (cases "n < 10")
      case True
      with small_m "1.prems" show ?thesis
        by (simp add: showNat.simps [of m] showNat.simps [of n] digit_inj)
    next
      case False
      with small_m "1.prems" showNat_nonempty [of "n div 10"] show ?thesis
        by (simp add: showNat.simps [of m] showNat.simps [of n] Cons_eq_append_conv)
    qed
  next
    case big_m: False
    show ?thesis
    proof (cases "n < 10")
      case True
      with big_m "1.prems" showNat_nonempty [of "m div 10"] show ?thesis
        by (simp add: showNat.simps [of m] showNat.simps [of n] append_eq_Cons_conv)
    next
      case False
      with big_m "1.prems"
      have pre: "showNat (m div 10) = showNat (n div 10)"
        and dig: "''0123456789'' ! (m mod 10) = ''0123456789'' ! (n mod 10)"
        by (simp_all add: showNat.simps [of m] showNat.simps [of n])
      from "1.IH" [OF big_m pre] have "m div 10 = n div 10" .
      moreover from dig have "m mod 10 = n mod 10"
        by (intro digit_inj) simp_all
      ultimately show ?thesis
        by (metis div_mult_mod_eq)
    qed
  qed
qed

lemma stamp_headers:
  "list_all stampedRight ps \<Longrightarrow>
     map (\<lambda>p. header (snd p)) (filter (\<lambda>p. fst p \<noteq> Plain) ps)
     = map (\<lambda>n. ''timestamp_'' @ showNat n) (stamps ps)"
proof (induction ps)
  case Nil
  show ?case by (simp add: stamps_def)
next
  case (Cons p ps)
  then show ?case
    by (cases "fst p") (simp_all add: stamps_def stampedRight_def)
qed

lemma distinct_stamp_headers:
  assumes "list_all stampedRight ps" and "distinct (stamps ps)"
  shows "distinct (map (\<lambda>p. header (snd p)) (filter (\<lambda>p. fst p \<noteq> Plain) ps))"
proof -
  have "inj_on (\<lambda>n. ''timestamp_'' @ showNat n) (set (stamps ps))"
    by (rule inj_onI) (simp add: showNat_inj)
  with assms(2) show ?thesis
    by (simp only: stamp_headers [OF assms(1)] distinct_map)
qed

text \<open>
  C1. The timestamp pushes are numbered by the counter, which moves by one per push.
  For the loop from any state: the numbers of the timestamp pushes it adds are exactly
  the values from \<open>timestampCount\<close> at its start up to, and without, \<open>timestampCount\<close>
  at its end, in increasing order; so each push shows the counter before its increment
  and the counter grows by one per push. For \<open>createGrid\<close>: the same from the counter it
  receives to the counter it returns, which is the first plus the number of grid
  entries. For a whole \<open>createColumnHeaders\<close> call: the numbers are \<open>0, 1, 2, ...\<close>, no
  number occurs twice, every push marked as timestamp number \<open>n\<close> has the header
  \<open>timestamp_n\<close>, and so the headers of the timestamp columns are all different.
\<close>

theorem timestamp_numbering:
  "(processSubtests db subs (acc, c) = Inr (acc', c') \<longrightarrow>
      stamps acc' = stamps acc @ [timestampCount c ..< timestampCount c'])
   \<and> (createGrid db doc c = Inr (hdr, tc) \<longrightarrow>
        getResults db (orElse (s_assessmentId doc) (curriculumId doc)) = Inr resultDocs \<longrightarrow>
          stamps hdr = [timestampCount c ..< tc]
          \<and> tc = timestampCount c + length (collectGridData resultDocs))
   \<and> (createColumnHeaders_pushes db docId count = Inr out \<longrightarrow>
          stamps out = [0 ..< length (stamps out)] \<and> distinct (stamps out)
          \<and> list_all stampedRight out
          \<and> distinct (map (\<lambda>p. header (snd p)) (filter (\<lambda>p. fst p \<noteq> Plain) out)))"
proof (intro conjI impI)
  assume "processSubtests db subs (acc, c) = Inr (acc', c')"
  then show "stamps acc' = stamps acc @ [timestampCount c ..< timestampCount c']"
    by (simp add: processSubtests_stamps)
next
  assume "createGrid db doc c = Inr (hdr, tc)"
  then show "stamps hdr = [timestampCount c ..< tc]"
    by (simp add: createGrid_stamps)
next
  assume run: "createGrid db doc c = Inr (hdr, tc)"
    and res: "getResults db (orElse (s_assessmentId doc) (curriculumId doc)) = Inr resultDocs"
  from run res
  have "gridLoop (collectGridData resultDocs) (gridCount c) (timestampCount c) [] = (hdr, tc)"
    by (simp add: createGrid_def Let_def)
  from gridLoop_stamps [OF this]
  show "tc = timestampCount c + length (collectGridData resultDocs)" by simp
next
  assume run: "createColumnHeaders_pushes db docId count = Inr out"
  then obtain item subs accF cF
    where loop: "processSubtests db subs (leadingColumns item count, initialCounts) = Inr (accF, cF)"
      and out: "out = accF @ [push (''end_time'' @ suffixOf count)
                                    (docId @ ''.end_time'' @ suffixOf count)]"
    by (auto simp: createColumnHeaders_pushes_def Let_def split: sum.splits)
  from processSubtests_stamps [OF loop]
  have "stamps accF = [0 ..< timestampCount cF]"
    by (simp add: stamps_leadingColumns initialCounts_def)
  with out have st: "stamps out = [0 ..< timestampCount cF]"
    by (simp add: stamps_simps)
  from stampedRight_processSubtests [OF loop stampedRight_leadingColumns] out
  have ok: "list_all stampedRight out"
    by (simp add: stampedRight_push)
  from st show "stamps out = [0 ..< length (stamps out)]" by simp
  from st show dist: "distinct (stamps out)" by simp
  from ok show "list_all stampedRight out" .
  from ok dist
  show "distinct (map (\<lambda>p. header (snd p)) (filter (\<lambda>p. fst p \<noteq> Plain) out))"
    by (rule distinct_stamp_headers)
qed

lemmas example_defs = exampleDb_def exampleQuestions_def exampleResults_def subtestOf_def
  questionOf_def entryOf_def

lemmas eval_defs = createColumnHeaders_pushes_def leadingColumns_def truthy_def orElse_def
  suffixOf_def processSubtest_def initialCounts_def Let_def
  createLocation_def createDatetime_def createConsent_def createId_def createGps_def
  createCamera_def createSurvey_def surveyQuestion_def createGrid_def collectGridData_def
  gridEntry_def gridVariableName_def

lemmas sort_defs = sortBy_def arraySort_def compareMultiple_def compareAscending_def
  property_def

theorem timestamp_numbering_witness:
  "\<exists>acc' c' hdr tc out.
     processSubtests exampleDb [subtestOf ''grid'' ''g1'', subtestOf ''gps'' ''s1'']
        ([], initialCounts) = Inr (acc', c')
     \<and> stamps acc' = stamps [] @ [timestampCount initialCounts ..< timestampCount c']
     \<and> createGrid exampleDb (subtestOf ''grid'' ''g1'') initialCounts = Inr (hdr, tc)
     \<and> getResults exampleDb (orElse (s_assessmentId (subtestOf ''grid'' ''g1''))
                                    (curriculumId (subtestOf ''grid'' ''g1''))) = Inr exampleResults
     \<and> stamps hdr = [timestampCount initialCounts ..< tc]
     \<and> tc = timestampCount initialCounts + length (collectGridData exampleResults)
     \<and> createColumnHeaders_pushes exampleDb ''a2'' 0 = Inr out
     \<and> stamps out = [0 ..< length (stamps out)] \<and> distinct (stamps out)
     \<and> list_all stampedRight out
     \<and> distinct (map (\<lambda>p. header (snd p)) (filter (\<lambda>p. fst p \<noteq> Plain) out))"
proof -
  have "\<exists>s. processSubtests exampleDb [subtestOf ''grid'' ''g1'', subtestOf ''gps'' ''s1'']
        ([], initialCounts) = Inr s"
    by (simp add: example_defs eval_defs)
  then obtain acc' c'
    where loop: "processSubtests exampleDb [subtestOf ''grid'' ''g1'', subtestOf ''gps'' ''s1'']
        ([], initialCounts) = Inr (acc', c')"
    by (cases) auto
  have "\<exists>g. createGrid exampleDb (subtestOf ''grid'' ''g1'') initialCounts = Inr g"
    by (simp add: example_defs eval_defs)
  then obtain hdr tc
    where grid: "createGrid exampleDb (subtestOf ''grid'' ''g1'') initialCounts = Inr (hdr, tc)"
    by (cases) auto
  have res: "getResults exampleDb (orElse (s_assessmentId (subtestOf ''grid'' ''g1''))
                                    (curriculumId (subtestOf ''grid'' ''g1''))) = Inr exampleResults"
    by (simp add: exampleDb_def subtestOf_def orElse_def truthy_def)
  have "\<exists>out. createColumnHeaders_pushes exampleDb ''a2'' 0 = Inr out"
    by (simp add: example_defs eval_defs sort_defs)
  then obtain out where run: "createColumnHeaders_pushes exampleDb ''a2'' 0 = Inr out" ..
  from timestamp_numbering [of exampleDb "[subtestOf ''grid'' ''g1'', subtestOf ''gps'' ''s1'']"
      "[]" initialCounts acc' c' "subtestOf ''grid'' ''g1''" hdr tc exampleResults "''a2''" 0 out]
    loop grid res run
  show ?thesis by blast
qed

subsection \<open>The gps scenario\<close>

lemmas build_defs = createColumnHeaders_def createColumnHeaders_pushes_def leadingColumns_def
  truthy_def suffixOf_def processSubtest_def initialCounts_def push_def pushTimestamp_def
  Let_def

text \<open>
  C2. For the assessment document \<open>{assessmentId: "a1"}\<close> stored under \<open>a1\<close>, whose subtest
  list is the single document \<open>{prototype: "gps", _id: "s1"}\<close>, and \<open>count = 0\<close>, the
  function resolves with exactly fourteen columns: the five assessment columns keyed
  under \<open>a1\<close>, the seven gps columns keyed under \<open>s1\<close>, \<open>timestamp_0\<close> keyed
  \<open>s1.timestamp_0\<close>, and \<open>end_time\<close> keyed \<open>a1.end_time\<close>, none with a suffix.
\<close>

theorem gps_scenario:
  assumes "retrieveDoc db ''a1'' = Inr item" and "assessmentId item = Some ''a1''"
    and "getSubtests db ''a1'' = Inr [d]" and "prototype d = ''gps''" and "s_id d = ''s1''"
  shows "createColumnHeaders db ''a1'' 0 =
    Inr [\<lparr>header = ''assessment_id'', key = ''a1.assessmentId''\<rparr>,
         \<lparr>header = ''assessment_name'', key = ''a1.assessmentName''\<rparr>,
         \<lparr>header = ''enumerator'', key = ''a1.enumerator''\<rparr>,
         \<lparr>header = ''start_time'', key = ''a1.start_time''\<rparr>,
         \<lparr>header = ''order_map'', key = ''a1.order_map''\<rparr>,
         \<lparr>header = ''latitude'', key = ''s1.latitude''\<rparr>,
         \<lparr>header = ''longitude'', key = ''s1.longitude''\<rparr>,
         \<lparr>header = ''accuracy'', key = ''s1.accuracy''\<rparr>,
         \<lparr>header = ''altitude'', key = ''s1.altitude''\<rparr>,
         \<lparr>header = ''altitudeAccuracy'', key = ''s1.altitudeAccuracy''\<rparr>,
         \<lparr>header = ''heading'', key = ''s1.heading''\<rparr>,
         \<lparr>header = ''speed'', key = ''s1.speed''\<rparr>,
         \<lparr>header = ''timestamp_0'', key = ''s1.timestamp_0''\<rparr>,
         \<lparr>header = ''end_time'', key = ''a1.end_time''\<rparr>]"
  using assms by (simp add: build_defs createGps_def showNat.simps)

theorem gps_scenario_witness:
  "retrieveDoc gpsDb ''a1'' = Inr \<lparr>assessmentId = Some ''a1''\<rparr>
   \<and> getSubtests gpsDb ''a1'' = Inr [gpsSubtest]
   \<and> prototype gpsSubtest = ''gps'' \<and> s_id gpsSubtest = ''s1''
   \<and> createColumnHeaders gpsDb ''a1'' 0 =
    Inr [\<lparr>header = ''assessment_id'', key = ''a1.assessmentId''\<rparr>,
         \<lparr>header = ''assessment_name'', key = ''a1.assessmentName''\<rparr>,
         \<lparr>header = ''enumerator'', key = ''a1.enumerator''\<rparr>,
         \<lparr>header = ''start_time'', key = ''a1.start_time''\<rparr>,
         \<lparr>header = ''order_map'', key = ''a1.order_map''\<rparr>,
         \<lparr>header = ''latitude'', key = ''s1.latitude''\<rparr>,
         \<lparr>header = ''longitude'', key = ''s1.longitude''\<rparr>,
         \<lparr>header = ''accuracy'', key = ''s1.accuracy''\<rparr>,
         \<lparr>header = ''altitude'', key = ''s1.altitude''\<rparr>,
         \<lparr>header = ''altitudeAccuracy'', key = ''s1.altitudeAccuracy''\<rparr>,
         \<lparr>header = ''heading'', key = ''s1.heading''\<rparr>,
         \<lparr>header = ''speed'', key = ''s1.speed''\<rparr>,
         \<lparr>header = ''timestamp_0'', key = ''s1.timestamp_0''\<rparr>,
         \<lparr>header = ''end_time'', key = ''a1.end_time''\<rparr>]"
  using gps_scenario [of gpsDb "\<lparr>assessmentId = Some ''a1''\<rparr>" gpsSubtest]
  by (simp add: gpsDb_def gpsSubtest_def)

text \<open>
  C3, as amended. For the same documents and \<open>count = 2\<close>, the five assessment columns
  and \<open>end_time\<close> carry the suffix \<open>_2\<close> in header and key; the seven gps columns carry
  no suffix, because their suffix comes from \<open>gpsCount\<close>, which is 0 at the first gps
  subtest; the timestamp column is \<open>timestamp_0\<close>, because \<open>timestampCount\<close> starts at 0
  whatever \<open>count\<close> is.
\<close>

theorem gps_scenario_count2:
  assumes "retrieveDoc db ''a1'' = Inr item" and "assessmentId item = Some ''a1''"
    and "getSubtests db ''a1'' = Inr [d]" and "prototype d = ''gps''" and "s_id d = ''s1''"
  shows "createColumnHeaders db ''a1'' 2 =
    Inr [\<lparr>header = ''assessment_id_2'', key = ''a1.assessmentId_2''\<rparr>,
         \<lparr>header = ''assessment_name_2'', key = ''a1.assessmentName_2''\<rparr>,
         \<lparr>header = ''enumerator_2'', key = ''a1.enumerator_2''\<rparr>,
         \<lparr>header = ''start_time_2'', key = ''a1.start_time_2''\<rparr>,
         \<lparr>header = ''order_map_2'', key = ''a1.order_map_2''\<rparr>,
         \<lparr>header = ''latitude'', key = ''s1.latitude''\<rparr>,
         \<lparr>header = ''longitude'', key = ''s1.longitude''\<rparr>,
         \<lparr>header = ''accuracy'', key = ''s1.accuracy''\<rparr>,
         \<lparr>header = ''altitude'', key = ''s1.altitude''\<rparr>,
         \<lparr>header = ''altitudeAccuracy'', key = ''s1.altitudeAccuracy''\<rparr>,
         \<lparr>header = ''heading'', key = ''s1.heading''\<rparr>,
         \<lparr>header = ''speed'', key = ''s1.speed''\<rparr>,
         \<lparr>header = ''timestamp_0'', key = ''s1.timestamp_0''\<rparr>,
         \<lparr>header = ''end_time_2'', key = ''a1.end_time_2''\<rparr>]"
  using assms by (simp add: build_defs createGps_def showNat.simps)

theorem gps_scenario_count2_witness:
  "retrieveDoc gpsDb ''a1'' = Inr \<lparr>assessmentId = Some ''a1''\<rparr>
   \<and> getSubtests gpsDb ''a1'' = Inr [gpsSubtest]
   \<and> prototype gpsSubtest = ''gps'' \<and> s_id gpsSubtest = ''s1''
   \<and> createColumnHeaders gpsDb ''a1'' 2 =
    Inr [\<lparr>header = ''assessment_id_2'', key = ''a1.assessmentId_2''\<rparr>,
         \<lparr>header = ''assessment_name_2'', key = ''a1.assessmentName_2''\<rparr>,
         \<lparr>header = ''enumerator_2'', key = ''a1.enumerator_2''\<rparr>,
         \<lparr>header = ''start_time_2'', key = ''a1.start_time_2''\<rparr>,
         \<lparr>header = ''order_map_2'', key = ''a1.order_map_2''\<rparr>,
         \<lparr>header = ''latitude'', key = ''s1.latitude''\<rparr>,
         \<lparr>header = ''longitude'', key = ''s1.longitude''\<rparr>,
         \<lparr>header = ''accuracy'', key = ''s1.accuracy''\<rparr>,
         \<lparr>header = ''altitude'', key = ''s1.altitude''\<rparr>,
         \<lparr>header = ''altitudeAccuracy'', key = ''s1.altitudeAccuracy''\<rparr>,
         \<lparr>header = ''heading'', key = ''s1.heading''\<rparr>,
         \<lparr>header = ''speed'', key = ''s1.speed''\<rparr>,
         \<lparr>header = ''timestamp_0'', key = ''s1.timestamp_0''\<rparr>,
         \<lparr>header = ''end_time_2'', key = ''a1.end_time_2''\<rparr>]"
  using gps_scenario_count2 [of gpsDb "\<lparr>assessmentId = Some ''a1''\<rparr>" gpsSubtest]
  by (simp add: gpsDb_def gpsSubtest_def)

text \<open>The claim as written, that every header and key other than \<open>timestamp_0\<close> ends in
  \<open>_2\<close>, fails at this input: the sixth column is \<open>latitude\<close> keyed \<open>s1.latitude\<close>.\<close>

theorem gps_scenario_count2_counterexample:
  "\<not> (\<forall>cols. createColumnHeaders gpsDb ''a1'' 2 = Inr cols \<longrightarrow>
         (\<forall>col \<in> set cols. header col = ''timestamp_0'' \<or>
            ((\<exists>p. header col = p @ ''_2'') \<and> (\<exists>p. key col = p @ ''_2''))))"
proof
  assume all: "\<forall>cols. createColumnHeaders gpsDb ''a1'' 2 = Inr cols \<longrightarrow>
         (\<forall>col \<in> set cols. header col = ''timestamp_0'' \<or>
            ((\<exists>p. header col = p @ ''_2'') \<and> (\<exists>p. key col = p @ ''_2'')))"
  have "\<exists>pre post. createColumnHeaders gpsDb ''a1'' 2 =
          Inr (pre @ \<lparr>header = ''latitude'', key = ''s1.latitude''\<rparr> # post)"
    by (simp add: gpsDb_def gpsSubtest_def build_defs createGps_def showNat.simps
          append_eq_Cons_conv Cons_eq_append_conv)
  then obtain pre post where "createColumnHeaders gpsDb ''a1'' 2 =
          Inr (pre @ \<lparr>header = ''latitude'', key = ''s1.latitude''\<rparr> # post)"
    by blast
  with all have "\<exists>p. ''latitude'' = p @ ''_2''"
    by fastforce
  then obtain p where "''latitude'' = p @ ''_2''" ..
  then have "last ''latitude'' = last (p @ ''_2'')" by (rule arg_cong)
  then show False by simp
qed



subsection \<open>Grid headers\<close>

lemma gridLoop_closed:
  "gridLoop es count tc hdr =
     (hdr @ concat (map (\<lambda>(k, sub). gridEntry sub (count + k) (tc + k)) (enumerate 0 es)),
      tc + length es)"
proof (induction es arbitrary: count tc hdr)
  case Nil
  show ?case by simp
next
  case (Cons sub rest)
  have shift: "map (\<lambda>(k, sub). gridEntry sub (count + k) (tc + k)) (enumerate (Suc 0) rest)
             = map (\<lambda>(k, sub). gridEntry sub (count + 1 + k) (tc + 1 + k)) (enumerate 0 rest)"
    by (simp add: enumerate_Suc_eq [of 0] case_prod_beta)
  show ?case
    by (simp add: Cons.IH shift)
qed

text \<open>
  C5, as amended. Let the database answer \<open>getResults\<close> for
  \<open>doc.assessmentId || doc.curriculumId\<close> with \<open>resultDocs\<close>. The grid entries are the
  entries with prototype \<open>grid\<close> of all result documents, in the order of the answer.
  For the entry at position \<open>k\<close> (from 0), \<open>createGrid\<close> pushes: the six columns
  \<open>var_auto_stop\<close>, \<open>var_time_remain\<close>, \<open>var_capture_item_at_time\<close>, \<open>var_attempted\<close>,
  \<open>var_time_intermediate_captured\<close>, \<open>var_time_allowed\<close>; then one column
  \<open>var_itemLabel\<close> per item; all of these keyed under the entry's \<open>subtestId\<close> and all
  with the suffix of the local counter \<open>gridCount + k\<close> (none when that is 0); then the
  timestamp column numbered \<open>timestampCount + k\<close>. Here \<open>var\<close> is \<open>data.variable_name\<close>
  when that is present and not the empty string, and otherwise the entry's name in lower
  case with each whitespace character replaced by an underscore. The function returns
  the whole sequence and \<open>timestampCount\<close> plus the number of grid entries.
\<close>

theorem createGrid_columns:
  assumes "getResults db (orElse (s_assessmentId doc) (curriculumId doc)) = Inr resultDocs"
  shows "createGrid db doc c =
    Inr (concat (map (\<lambda>(k, sub).
           (let var = (case variable_name (e_data sub) of
                         None \<Rightarrow> replaceWhitespace (toLowerCase (e_name sub))
                       | Some v \<Rightarrow> if v = [] then replaceWhitespace (toLowerCase (e_name sub))
                                  else v);
                sfx = suffixOf (int (gridCount c + k))
            in map (\<lambda>field. push (var @ field @ sfx) (e_subtestId sub @ ''.'' @ var @ field @ sfx))
                 ([''_auto_stop'', ''_time_remain'', ''_capture_item_at_time'', ''_attempted'',
                   ''_time_intermediate_captured'', ''_time_allowed'']
                  @ map (\<lambda>it. ''_'' @ itemLabel it) (items (e_data sub)))
               @ [pushTimestamp (e_subtestId sub) (timestampCount c + k)]))
          (enumerate 0 (concat (map (\<lambda>r. filter (\<lambda>v. e_prototype v = ''grid'') (subtestData r))
                                    resultDocs)))),
         timestampCount c
         + length (concat (map (\<lambda>r. filter (\<lambda>v. e_prototype v = ''grid'') (subtestData r))
                               resultDocs)))"
proof -
  have entry: "gridEntry sub n t =
      (let var = (case variable_name (e_data sub) of
                         None \<Rightarrow> replaceWhitespace (toLowerCase (e_name sub))
                       | Some v \<Rightarrow> if v = [] then replaceWhitespace (toLowerCase (e_name sub))
                                  else v);
           sfx = suffixOf (int n)
       in map (\<lambda>field. push (var @ field @ sfx) (e_subtestId sub @ ''.'' @ var @ field @ sfx))
                 ([''_auto_stop'', ''_time_remain'', ''_capture_item_at_time'', ''_attempted'',
                   ''_time_intermediate_captured'', ''_time_allowed'']
                  @ map (\<lambda>it. ''_'' @ itemLabel it) (items (e_data sub)))
               @ [pushTimestamp (e_subtestId sub) t])" for sub n t
    by (simp add: gridEntry_def gridVariableName_def truthy_def Let_def comp_def
             split: option.splits)
  show ?thesis
    using assms
    by (simp add: createGrid_def gridLoop_closed collectGridData_def entry Let_def)
qed

theorem createGrid_columns_witness:
  "getResults exampleDb (orElse (s_assessmentId (subtestOf ''grid'' ''g1''))
                                (curriculumId (subtestOf ''grid'' ''g1''))) = Inr exampleResults
   \<and> createGrid exampleDb (subtestOf ''grid'' ''g1'') initialCounts = Inr (exampleGridHeader, 2)"
proof -
  have res: "getResults exampleDb (orElse (s_assessmentId (subtestOf ''grid'' ''g1''))
                                (curriculumId (subtestOf ''grid'' ''g1''))) = Inr exampleResults"
    by (simp add: exampleDb_def subtestOf_def orElse_def truthy_def)
  have nm: "replaceWhitespace (toLowerCase ''My Grid'') = ''my_grid''"
    by code_simp
  from createGrid_columns [OF res, of initialCounts]
  have "createGrid exampleDb (subtestOf ''grid'' ''g1'') initialCounts = Inr (exampleGridHeader, 2)"
    by (simp add: exampleResults_def entryOf_def enumerate_eq_zip upt_rec initialCounts_def nm
          suffixOf_def showNat.simps exampleGridHeader_def Let_def)
  with res show ?thesis by simp
qed

text \<open>The claim as written fails at this input. Its first grid entry has a
  \<open>variable_name\<close>, the empty string, and the claim takes \<open>var\<close> from a present
  \<open>variable_name\<close>: it prescribes the column \<open>_auto_stop\<close>. The second entry has the item
  \<open>x\<close> and the claim names its column \<open>words_x\<close>. Neither column is pushed.\<close>

theorem createGrid_columns_counterexample:
  "variable_name (e_data (hd (collectGridData exampleResults))) = Some []
   \<and> createGrid exampleDb (subtestOf ''grid'' ''g1'') initialCounts = Inr (exampleGridHeader, 2)
   \<and> push ''_auto_stop'' ''g1._auto_stop'' \<notin> set exampleGridHeader
   \<and> push ''words_x'' ''g1.words_x'' \<notin> set exampleGridHeader"
proof -
  have nm: "replaceWhitespace (toLowerCase ''My Grid'') = ''my_grid''"
    by code_simp
  have "createGrid exampleDb (subtestOf ''grid'' ''g1'') initialCounts = Inr (exampleGridHeader, 2)"
    by (simp add: example_defs eval_defs nm showNat.simps exampleGridHeader_def)
  moreover have "variable_name (e_data (hd (collectGridData exampleResults))) = Some []"
    by (simp add: collectGridData_def exampleResults_def entryOf_def)
  moreover have "push ''_auto_stop'' ''g1._auto_stop'' \<notin> set exampleGridHeader"
    by (simp add: exampleGridHeader_def push_def pushTimestamp_def)
  moreover have "push ''words_x'' ''g1.words_x'' \<notin> set exampleGridHeader"
    by (simp add: exampleGridHeader_def push_def pushTimestamp_def)
  ultimately show ?thesis by simp
qed


subsection \<open>Grid subtests after the first\<close>

lemma processSubtest_gridCount:
  assumes "processSubtest db (acc, c) d = Inr (acc', c')"
  shows "gridCount c \<le> gridCount c'"
    and "prototype d \<noteq> ''grid'' \<Longrightarrow> gridCount c' = gridCount c"
    and "prototype d = ''grid'' \<Longrightarrow> 0 < gridCount c'"
  using assms
  by (auto simp: processSubtest_def Let_def split: if_splits sum.splits)

lemma processSubtests_no_grid:
  "processSubtests db subs (acc, c) = Inr (acc', c') \<Longrightarrow>
     \<forall>d \<in> set subs. prototype d \<noteq> ''grid'' \<Longrightarrow> gridCount c' = gridCount c"
proof (induction subs arbitrary: acc c)
  case Nil
  then show ?case by simp
next
  case (Cons d rest)
  from Cons.prems(1) obtain acc1 c1
    where step: "processSubtest db (acc, c) d = Inr (acc1, c1)"
      and rest: "processSubtests db rest (acc1, c1) = Inr (acc', c')"
    by (auto split: sum.splits)
  from Cons.prems(2) have "prototype d \<noteq> ''grid''" and "\<forall>d \<in> set rest. prototype d \<noteq> ''grid''"
    by simp_all
  with processSubtest_gridCount(2) [OF step] Cons.IH [OF rest] show ?case by simp
qed

lemma processSubtests_gridCount_mono:
  "processSubtests db subs (acc, c) = Inr (acc', c') \<Longrightarrow> gridCount c \<le> gridCount c'"
proof (induction subs arbitrary: acc c)
  case Nil
  then show ?case by simp
next
  case (Cons d rest)
  from Cons.prems obtain acc1 c1
    where step: "processSubtest db (acc, c) d = Inr (acc1, c1)"
      and rest: "processSubtests db rest (acc1, c1) = Inr (acc', c')"
    by (auto split: sum.splits)
  from processSubtest_gridCount(1) [OF step] Cons.IH [OF rest] show ?case by simp
qed

lemma processSubtests_some_grid:
  "processSubtests db subs (acc, c) = Inr (acc', c') \<Longrightarrow>
     \<exists>d \<in> set subs. prototype d = ''grid'' \<Longrightarrow> 0 < gridCount c'"
proof (induction subs arbitrary: acc c)
  case Nil
  then show ?case by simp
next
  case (Cons d rest)
  from Cons.prems(1) obtain acc1 c1
    where step: "processSubtest db (acc, c) d = Inr (acc1, c1)"
      and rest: "processSubtests db rest (acc1, c1) = Inr (acc', c')"
    by (auto split: sum.splits)
  show ?case
  proof (cases "prototype d = ''grid''")
    case True
    from processSubtest_gridCount(3) [OF step True] processSubtests_gridCount_mono [OF rest]
    show ?thesis by simp
  next
    case False
    with Cons.prems(2) have "\<exists>d \<in> set rest. prototype d = ''grid''" by simp
    from Cons.IH [OF rest this] show ?thesis .
  qed
qed

lemma processSubtest_later_grid:
  "prototype g = ''grid'' \<Longrightarrow> 0 < gridCount c \<Longrightarrow> processSubtest db (acc, c) g = Inr (acc, c)"
  by (simp add: processSubtest_def Let_def)

lemma processSubtests_append:
  "processSubtests db (xs @ ys) s =
     (case processSubtests db xs s of Inl err \<Rightarrow> Inl err | Inr s' \<Rightarrow> processSubtests db ys s')"
  by (induction xs arbitrary: s) (simp_all split: sum.splits)

text \<open>
  C6. In the loop of one \<open>createColumnHeaders\<close> call, which starts with all counters at
  zero: a grid subtest that no grid subtest precedes is handed to \<open>createGrid\<close>, whose
  columns are appended and whose counter is taken over; a grid subtest that some grid
  subtest precedes leaves the columns and every counter, \<open>timestampCount\<close> included, as
  they are; and the outcome of the whole loop is the same as without that subtest.
\<close>

theorem only_first_grid:
  assumes "prototype g = ''grid''"
  shows "(processSubtests db pre (acc, initialCounts) = Inr (acc', c') \<longrightarrow>
            (\<forall>d \<in> set pre. prototype d \<noteq> ''grid'') \<longrightarrow>
            processSubtest db (acc', c') g =
              (case createGrid db g c' of
                 Inl err \<Rightarrow> Inl err
               | Inr grid \<Rightarrow> Inr (acc' @ fst grid, c'\<lparr>gridCount := 1, timestampCount := snd grid\<rparr>)))
       \<and> (processSubtests db pre (acc, initialCounts) = Inr (acc', c') \<longrightarrow>
            (\<exists>d \<in> set pre. prototype d = ''grid'') \<longrightarrow>
            processSubtest db (acc', c') g = Inr (acc', c'))
       \<and> ((\<exists>d \<in> set pre. prototype d = ''grid'') \<longrightarrow>
            processSubtests db (pre @ g # post) (acc, initialCounts)
            = processSubtests db (pre @ post) (acc, initialCounts))"
proof (intro conjI impI)
  assume run: "processSubtests db pre (acc, initialCounts) = Inr (acc', c')"
    and none: "\<forall>d \<in> set pre. prototype d \<noteq> ''grid''"
  from processSubtests_no_grid [OF run none] have "gridCount c' = 0"
    by (simp add: initialCounts_def)
  with assms show "processSubtest db (acc', c') g =
              (case createGrid db g c' of
                 Inl err \<Rightarrow> Inl err
               | Inr grid \<Rightarrow> Inr (acc' @ fst grid, c'\<lparr>gridCount := 1, timestampCount := snd grid\<rparr>))"
    by (simp add: processSubtest_def Let_def split: sum.splits)
next
  assume run: "processSubtests db pre (acc, initialCounts) = Inr (acc', c')"
    and some: "\<exists>d \<in> set pre. prototype d = ''grid''"
  from processSubtests_some_grid [OF run some] assms
  show "processSubtest db (acc', c') g = Inr (acc', c')"
    by (rule processSubtest_later_grid [rotated])
next
  assume some: "\<exists>d \<in> set pre. prototype d = ''grid''"
  show "processSubtests db (pre @ g # post) (acc, initialCounts)
        = processSubtests db (pre @ post) (acc, initialCounts)"
  proof (cases "processSubtests db pre (acc, initialCounts)")
    case (Inl err)
    then show ?thesis by (simp add: processSubtests_append)
  next
    case (Inr s)
    obtain acc' c' where s: "s = (acc', c')" by (cases s)
    from Inr s processSubtests_some_grid [OF _ some] have "0 < gridCount c'" by simp
    with assms have "processSubtest db (acc', c') g = Inr (acc', c')"
      by (rule processSubtest_later_grid)
    with Inr s show ?thesis by (simp add: processSubtests_append)
  qed
qed

theorem only_first_grid_witness:
  "\<exists>acc1 c1 acc2 c2.
     processSubtests exampleDb [subtestOf ''location'' ''l1''] ([], initialCounts) = Inr (acc1, c1)
     \<and> prototype (subtestOf ''location'' ''l1'') \<noteq> ''grid''
     \<and> prototype (subtestOf ''grid'' ''g1'') = ''grid''
     \<and> processSubtest exampleDb (acc1, c1) (subtestOf ''grid'' ''g1'')
         = (case createGrid exampleDb (subtestOf ''grid'' ''g1'') c1 of
              Inl err \<Rightarrow> Inl err
            | Inr grid \<Rightarrow>
                Inr (acc1 @ fst grid, c1\<lparr>gridCount := 1, timestampCount := snd grid\<rparr>))
     \<and> processSubtests exampleDb [subtestOf ''location'' ''l1'', subtestOf ''grid'' ''g1'']
          ([], initialCounts) = Inr (acc2, c2)
     \<and> prototype (subtestOf ''grid'' ''g2'') = ''grid''
     \<and> processSubtest exampleDb (acc2, c2) (subtestOf ''grid'' ''g2'') = Inr (acc2, c2)
     \<and> processSubtests exampleDb
          ([subtestOf ''location'' ''l1'', subtestOf ''grid'' ''g1'']
             @ subtestOf ''grid'' ''g2'' # [subtestOf ''gps'' ''s1'']) ([], initialCounts)
        = processSubtests exampleDb
          ([subtestOf ''location'' ''l1'', subtestOf ''grid'' ''g1''] @ [subtestOf ''gps'' ''s1''])
          ([], initialCounts)"
proof -
  have g: "prototype (subtestOf ''grid'' ''g1'') = ''grid''"
      "prototype (subtestOf ''grid'' ''g2'') = ''grid''"
    by (simp_all add: subtestOf_def)
  have none: "\<forall>d \<in> set [subtestOf ''location'' ''l1'']. prototype d \<noteq> ''grid''"
    by (simp add: subtestOf_def)
  have some: "\<exists>d \<in> set [subtestOf ''location'' ''l1'', subtestOf ''grid'' ''g1'']. prototype d = ''grid''"
    by (simp add: subtestOf_def)
  have "\<exists>s. processSubtests exampleDb [subtestOf ''location'' ''l1''] ([], initialCounts) = Inr s"
    by (simp add: example_defs eval_defs)
  then obtain acc1 c1
    where run1: "processSubtests exampleDb [subtestOf ''location'' ''l1''] ([], initialCounts)
                 = Inr (acc1, c1)"
    by (cases) auto
  have "\<exists>s. processSubtests exampleDb [subtestOf ''location'' ''l1'', subtestOf ''grid'' ''g1'']
          ([], initialCounts) = Inr s"
    by (simp add: example_defs eval_defs)
  then obtain acc2 c2
    where run2: "processSubtests exampleDb [subtestOf ''location'' ''l1'', subtestOf ''grid'' ''g1'']
          ([], initialCounts) = Inr (acc2, c2)"
    by (cases) auto
  from only_first_grid [OF g(1), of exampleDb "[subtestOf ''location'' ''l1'']" "[]" acc1 c1]
    run1 none
  have first: "processSubtest exampleDb (acc1, c1) (subtestOf ''grid'' ''g1'')
         = (case createGrid exampleDb (subtestOf ''grid'' ''g1'') c1 of
              Inl err \<Rightarrow> Inl err
            | Inr grid \<Rightarrow>
                Inr (acc1 @ fst grid, c1\<lparr>gridCount := 1, timestampCount := snd grid\<rparr>))"
    by blast
  from only_first_grid [OF g(2), of exampleDb
      "[subtestOf ''location'' ''l1'', subtestOf ''grid'' ''g1'']" "[]" acc2 c2
      "[subtestOf ''gps'' ''s1'']"] run2 some
  have later: "processSubtest exampleDb (acc2, c2) (subtestOf ''grid'' ''g2'') = Inr (acc2, c2)"
    and whole: "processSubtests exampleDb
          ([subtestOf ''location'' ''l1'', subtestOf ''grid'' ''g1'']
             @ subtestOf ''grid'' ''g2'' # [subtestOf ''gps'' ''s1'']) ([], initialCounts)
        = processSubtests exampleDb
          ([subtestOf ''location'' ''l1'', subtestOf ''grid'' ''g1''] @ [subtestOf ''gps'' ''s1''])
          ([], initialCounts)"
    by blast+
  have l: "prototype (subtestOf ''location'' ''l1'') \<noteq> ''grid''"
    by (simp add: subtestOf_def)
  from run1 l g first run2 later whole show ?thesis by blast
qed


subsection \<open>The leading block\<close>

lemma createSurvey_retrieveDoc_update:
  "createSurvey (db\<lparr>retrieveDoc := f\<rparr>) i c = createSurvey db i c"
  by (simp add: createSurvey_def)

lemma createGrid_retrieveDoc_update:
  "createGrid (db\<lparr>retrieveDoc := f\<rparr>) d c = createGrid db d c"
  by (simp add: createGrid_def)

lemma processSubtest_retrieveDoc_update:
  "processSubtest (db\<lparr>retrieveDoc := f\<rparr>) s d = processSubtest db s d"
  unfolding processSubtest_def createSurvey_retrieveDoc_update createGrid_retrieveDoc_update
  by (rule refl)

lemma processSubtests_retrieveDoc_update:
  "processSubtests (db\<lparr>retrieveDoc := f\<rparr>) subs s = processSubtests db subs s"
  by (induction subs arbitrary: s)
     (simp_all add: processSubtest_retrieveDoc_update split: sum.splits)

text \<open>The loop only appends: what it was given at the start stays in front.\<close>

lemma processSubtest_prefix:
  "processSubtest db (acc, c) d = map_sum id (apfst ((@) acc)) (processSubtest db ([], c) d)"
  by (simp add: processSubtest_def Let_def split: sum.splits)

lemma processSubtests_prefix:
  "processSubtests db subs (acc, c) = map_sum id (apfst ((@) acc)) (processSubtests db subs ([], c))"
proof (induction subs arbitrary: acc c)
  case Nil
  show ?case by simp
next
  case (Cons d rest)
  show ?case
  proof (cases "processSubtest db ([], c) d")
    case (Inl err)
    then show ?thesis by (simp add: processSubtest_prefix [of db acc])
  next
    case (Inr s)
    obtain acc1 c1 where s: "s = (acc1, c1)" by (cases s)
    have "processSubtests db rest (acc @ acc1, c1)
          = map_sum id (apfst ((@) (acc @ acc1))) (processSubtests db rest ([], c1))"
      by (rule Cons.IH)
    moreover have "processSubtests db rest (acc1, c1)
          = map_sum id (apfst ((@) acc1)) (processSubtests db rest ([], c1))"
      by (rule Cons.IH)
    ultimately show ?thesis
      using Inr s
      by (cases "processSubtests db rest ([], c1)")
         (auto simp: processSubtest_prefix [of db acc])
  qed
qed

lemma createColumnHeaders_pushes_leading:
  assumes "retrieveDoc db docId = Inr item"
  shows "createColumnHeaders_pushes db docId count =
     map_sum id ((@) (leadingColumns item count))
       (createColumnHeaders_pushes (db\<lparr>retrieveDoc := \<lambda>i. Inr \<lparr>assessmentId = None\<rparr>\<rparr>) docId count)"
proof -
  have none: "leadingColumns \<lparr>assessmentId = None\<rparr> count = []"
    by (simp add: leadingColumns_def truthy_def)
  show ?thesis
  proof (cases "getSubtests db docId")
    case (Inl err)
    with assms show ?thesis by (simp add: createColumnHeaders_pushes_def)
  next
    case (Inr subs)
    show ?thesis
    proof (cases "processSubtests db subs ([], initialCounts)")
      case (Inl err)
      with assms Inr show ?thesis
        by (simp add: createColumnHeaders_pushes_def none processSubtests_retrieveDoc_update
              processSubtests_prefix [of db subs "leadingColumns item count"])
    next
      case (Inr s)
      with assms \<open>getSubtests db docId = Inr subs\<close> show ?thesis
        by (simp add: createColumnHeaders_pushes_def none processSubtests_retrieveDoc_update
              processSubtests_prefix [of db subs "leadingColumns item count"] Let_def)
    qed
  qed
qed

text \<open>
  C7, as amended. When the document loaded by \<open>retrieveDoc\<close> has an \<open>assessmentId\<close> that
  is truthy (present and not the empty string), the result of \<open>createColumnHeaders\<close> is
  the five columns \<open>assessment_id\<close>, \<open>assessment_name\<close>, \<open>enumerator\<close>, \<open>start_time\<close>,
  \<open>order_map\<close>, keyed under that \<open>assessmentId\<close> with the suffix of \<open>count\<close>, in front of
  what the function yields for a document without the field; when \<open>assessmentId\<close> is absent
  or the empty string, the result is just what the function yields for a document
  without the field. A failure is the same failure in both cases, so the test itself
  raises nothing.
\<close>

theorem leading_block_iff_truthy:
  assumes "retrieveDoc db docId = Inr item"
  shows "createColumnHeaders db docId count =
     map_sum id
       ((@) (case assessmentId item of
               None \<Rightarrow> []
             | Some aid \<Rightarrow>
                 if aid = [] then []
                 else [\<lparr>header = ''assessment_id'' @ suffixOf count,
                         key = aid @ ''.assessmentId'' @ suffixOf count\<rparr>,
                       \<lparr>header = ''assessment_name'' @ suffixOf count,
                         key = aid @ ''.assessmentName'' @ suffixOf count\<rparr>,
                       \<lparr>header = ''enumerator'' @ suffixOf count,
                         key = aid @ ''.enumerator'' @ suffixOf count\<rparr>,
                       \<lparr>header = ''start_time'' @ suffixOf count,
                         key = aid @ ''.start_time'' @ suffixOf count\<rparr>,
                       \<lparr>header = ''order_map'' @ suffixOf count,
                         key = aid @ ''.order_map'' @ suffixOf count\<rparr>]))
       (createColumnHeaders (db\<lparr>retrieveDoc := \<lambda>i. Inr \<lparr>assessmentId = None\<rparr>\<rparr>) docId count)"
proof -
  have block: "map snd (leadingColumns item count) =
     (case assessmentId item of
               None \<Rightarrow> []
             | Some aid \<Rightarrow>
                 if aid = [] then []
                 else [\<lparr>header = ''assessment_id'' @ suffixOf count,
                         key = aid @ ''.assessmentId'' @ suffixOf count\<rparr>,
                       \<lparr>header = ''assessment_name'' @ suffixOf count,
                         key = aid @ ''.assessmentName'' @ suffixOf count\<rparr>,
                       \<lparr>header = ''enumerator'' @ suffixOf count,
                         key = aid @ ''.enumerator'' @ suffixOf count\<rparr>,
                       \<lparr>header = ''start_time'' @ suffixOf count,
                         key = aid @ ''.start_time'' @ suffixOf count\<rparr>,
                       \<lparr>header = ''order_map'' @ suffixOf count,
                         key = aid @ ''.order_map'' @ suffixOf count\<rparr>])"
    by (simp add: leadingColumns_def truthy_def push_def Let_def split: option.splits)
  show ?thesis
    unfolding createColumnHeaders_def createColumnHeaders_pushes_leading [OF assms] block [symmetric]
    by (cases "createColumnHeaders_pushes (db\<lparr>retrieveDoc := \<lambda>i. Inr \<lparr>assessmentId = None\<rparr>\<rparr>) docId count")
       simp_all
qed

theorem leading_block_iff_truthy_witness:
  "retrieveDoc gpsDb ''a1'' = Inr \<lparr>assessmentId = Some ''a1''\<rparr>
   \<and> createColumnHeaders gpsDb ''a1'' 0 =
       map_sum id
        ((@) [\<lparr>header = ''assessment_id'', key = ''a1.assessmentId''\<rparr>,
              \<lparr>header = ''assessment_name'', key = ''a1.assessmentName''\<rparr>,
              \<lparr>header = ''enumerator'', key = ''a1.enumerator''\<rparr>,
              \<lparr>header = ''start_time'', key = ''a1.start_time''\<rparr>,
              \<lparr>header = ''order_map'', key = ''a1.order_map''\<rparr>])
        (createColumnHeaders (gpsDb\<lparr>retrieveDoc := \<lambda>i. Inr \<lparr>assessmentId = None\<rparr>\<rparr>) ''a1'' 0)"
proof -
  have doc: "retrieveDoc gpsDb ''a1'' = Inr \<lparr>assessmentId = Some ''a1''\<rparr>"
    by (simp add: gpsDb_def)
  from leading_block_iff_truthy [OF doc, of 0] doc show ?thesis
    by (simp add: suffixOf_def)
qed

text \<open>The claim as written, that the block is there whenever the document has the
  field, fails for the document \<open>a3\<close>: it has the field, with the empty string, and the
  result is the \<open>end_time\<close> column alone.\<close>

theorem leading_block_counterexample:
  "retrieveDoc exampleDb ''a3'' = Inr \<lparr>assessmentId = Some []\<rparr>
   \<and> createColumnHeaders exampleDb ''a3'' 0 = Inr [\<lparr>header = ''end_time'', key = ''a3.end_time''\<rparr>]"
  by (simp add: exampleDb_def build_defs)

text \<open>
  C10. When the loaded document has an \<open>assessmentId\<close> that is present but falsy (in
  this model: the empty string), \<open>createColumnHeaders\<close> returns exactly what it returns
  when the same document has no \<open>assessmentId\<close> at all: no leading block.
\<close>

theorem falsy_assessmentId_as_absent:
  assumes "retrieveDoc db docId = Inr item"
    and "assessmentId item \<noteq> None" and "\<not> truthy (assessmentId item)"
  shows "createColumnHeaders db docId count =
     createColumnHeaders (db\<lparr>retrieveDoc := \<lambda>i. Inr (item\<lparr>assessmentId := None\<rparr>)\<rparr>) docId count"
proof -
  from assms(3) have none: "leadingColumns item count = []"
    by (simp add: leadingColumns_def)
  have same: "item\<lparr>assessmentId := None\<rparr> = \<lparr>assessmentId = None\<rparr>"
    by simp
  show ?thesis
    unfolding createColumnHeaders_def createColumnHeaders_pushes_leading [OF assms(1)] none same
    by (cases "createColumnHeaders_pushes (db\<lparr>retrieveDoc := \<lambda>i. Inr \<lparr>assessmentId = None\<rparr>\<rparr>) docId count")
       simp_all
qed

theorem falsy_assessmentId_as_absent_witness:
  "retrieveDoc exampleDb ''a3'' = Inr \<lparr>assessmentId = Some []\<rparr>
   \<and> assessmentId \<lparr>assessmentId = Some []\<rparr> \<noteq> None
   \<and> \<not> truthy (assessmentId \<lparr>assessmentId = Some []\<rparr>)
   \<and> createColumnHeaders exampleDb ''a3'' 5 =
       createColumnHeaders
         (exampleDb\<lparr>retrieveDoc := \<lambda>i. Inr (\<lparr>assessmentId = Some []\<rparr>\<lparr>assessmentId := None\<rparr>)\<rparr>)
         ''a3'' 5
   \<and> createColumnHeaders exampleDb ''a3'' 5
       = Inr [\<lparr>header = ''end_time_5'', key = ''a3.end_time_5''\<rparr>]"
proof -
  have doc: "retrieveDoc exampleDb ''a3'' = Inr \<lparr>assessmentId = Some []\<rparr>"
    by (simp add: exampleDb_def)
  have pres: "assessmentId \<lparr>assessmentId = Some []\<rparr> \<noteq> None"
    and falsy: "\<not> truthy (assessmentId \<lparr>assessmentId = Some []\<rparr>)"
    by (simp_all add: truthy_def)
  have val: "createColumnHeaders exampleDb ''a3'' 5
       = Inr [\<lparr>header = ''end_time_5'', key = ''a3.end_time_5''\<rparr>]"
    by (simp add: exampleDb_def build_defs showNat.simps)
  from falsy_assessmentId_as_absent [OF doc pres falsy, of 5] doc pres falsy val
  show ?thesis by simp
qed


subsection \<open>Failures\<close>

lemma createSurvey_fails:
  "getQuestionBySubtestId db i = Inl err \<Longrightarrow> createSurvey db i c = Inl err"
  by (simp add: createSurvey_def)

lemma createGrid_fails:
  "getResults db (orElse (s_assessmentId d) (curriculumId d)) = Inl err \<Longrightarrow>
     createGrid db d c = Inl err"
  by (simp add: createGrid_def)

lemma processSubtests_fails_at:
  assumes "processSubtests db pre s = Inr s'" and "processSubtest db s' d = Inl err"
  shows "processSubtests db (pre @ d # post) s = Inl err"
  using assms by (simp add: processSubtests_append)

text \<open>
  C8. \<open>createColumnHeaders\<close> rejects with the failure it met, and with nothing else:
  when \<open>retrieveDoc\<close> fails; when \<open>getSubtests\<close> fails; and when the loop, having
  processed the subtests before \<open>d\<close>, reaches a survey subtest \<open>d\<close> whose questions cannot
  be read, or a grid subtest \<open>d\<close>, the first of the list, whose results cannot be read.
  The result is then \<open>Inl err\<close> with the very \<open>err\<close> of the database; the columns pushed so
  far are not part of it.
\<close>

theorem failures_propagate:
  "(retrieveDoc db docId = Inl err \<longrightarrow> createColumnHeaders db docId count = Inl err)
   \<and> (retrieveDoc db docId = Inr item \<longrightarrow> getSubtests db docId = Inl err \<longrightarrow>
        createColumnHeaders db docId count = Inl err)
   \<and> (retrieveDoc db docId = Inr item \<longrightarrow> getSubtests db docId = Inr (pre @ d # post) \<longrightarrow>
        processSubtests db pre (leadingColumns item count, initialCounts) = Inr (acc, c) \<longrightarrow>
        prototype d = ''survey'' \<longrightarrow> getQuestionBySubtestId db (s_id d) = Inl err \<longrightarrow>
        createColumnHeaders db docId count = Inl err)
   \<and> (retrieveDoc db docId = Inr item \<longrightarrow> getSubtests db docId = Inr (pre @ d # post) \<longrightarrow>
        processSubtests db pre (leadingColumns item count, initialCounts) = Inr (acc, c) \<longrightarrow>
        prototype d = ''grid'' \<longrightarrow> (\<forall>x \<in> set pre. prototype x \<noteq> ''grid'') \<longrightarrow>
        getResults db (orElse (s_assessmentId d) (curriculumId d)) = Inl err \<longrightarrow>
        createColumnHeaders db docId count = Inl err)"
proof (intro conjI impI)
  assume "retrieveDoc db docId = Inl err"
  then show "createColumnHeaders db docId count = Inl err"
    by (simp add: createColumnHeaders_def createColumnHeaders_pushes_def)
next
  assume "retrieveDoc db docId = Inr item" and "getSubtests db docId = Inl err"
  then show "createColumnHeaders db docId count = Inl err"
    by (simp add: createColumnHeaders_def createColumnHeaders_pushes_def)
next
  assume doc: "retrieveDoc db docId = Inr item"
    and subs: "getSubtests db docId = Inr (pre @ d # post)"
    and pre: "processSubtests db pre (leadingColumns item count, initialCounts) = Inr (acc, c)"
    and d: "prototype d = ''survey''" and q: "getQuestionBySubtestId db (s_id d) = Inl err"
  from d createSurvey_fails [OF q] have "processSubtest db (acc, c) d = Inl err"
    by (simp add: processSubtest_def Let_def)
  from processSubtests_fails_at [OF pre this] doc subs
  show "createColumnHeaders db docId count = Inl err"
    by (simp add: createColumnHeaders_def createColumnHeaders_pushes_def)
next
  assume doc: "retrieveDoc db docId = Inr item"
    and subs: "getSubtests db docId = Inr (pre @ d # post)"
    and pre: "processSubtests db pre (leadingColumns item count, initialCounts) = Inr (acc, c)"
    and d: "prototype d = ''grid''" and first: "\<forall>x \<in> set pre. prototype x \<noteq> ''grid''"
    and r: "getResults db (orElse (s_assessmentId d) (curriculumId d)) = Inl err"
  from processSubtests_no_grid [OF pre first] have "gridCount c = 0"
    by (simp add: initialCounts_def)
  with d createGrid_fails [OF r] have "processSubtest db (acc, c) d = Inl err"
    by (simp add: processSubtest_def Let_def)
  from processSubtests_fails_at [OF pre this] doc subs
  show "createColumnHeaders db docId count = Inl err"
    by (simp add: createColumnHeaders_def createColumnHeaders_pushes_def)
qed

theorem failures_propagate_witness:
  "retrieveDoc exampleDb ''zz'' = Inl ''not_found''
   \<and> createColumnHeaders exampleDb ''zz'' 0 = Inl ''not_found''
   \<and> retrieveDoc exampleDb ''a4'' = Inr \<lparr>assessmentId = Some ''a4''\<rparr>
   \<and> getSubtests exampleDb ''a4'' = Inl ''no_subtests''
   \<and> createColumnHeaders exampleDb ''a4'' 0 = Inl ''no_subtests''
   \<and> getSubtests exampleDb ''a5''
       = Inr ([subtestOf ''id'' ''i1''] @ subtestOf ''survey'' ''s9'' # [subtestOf ''gps'' ''s1''])
   \<and> getQuestionBySubtestId exampleDb (s_id (subtestOf ''survey'' ''s9'')) = Inl ''no_questions''
   \<and> createColumnHeaders exampleDb ''a5'' 0 = Inl ''no_questions''
   \<and> getSubtests exampleDb ''a6''
       = Inr ([subtestOf ''id'' ''i1'']
              @ (subtestOf ''grid'' ''g9'')\<lparr>s_assessmentId := None\<rparr> # [subtestOf ''gps'' ''s1''])
   \<and> prototype (subtestOf ''id'' ''i1'') \<noteq> ''grid''
   \<and> getResults exampleDb
        (orElse (s_assessmentId ((subtestOf ''grid'' ''g9'')\<lparr>s_assessmentId := None\<rparr>))
                (curriculumId ((subtestOf ''grid'' ''g9'')\<lparr>s_assessmentId := None\<rparr>)))
       = Inl ''no_results''
   \<and> createColumnHeaders exampleDb ''a6'' 0 = Inl ''no_results''"
proof -
  have d0: "retrieveDoc exampleDb ''zz'' = Inl ''not_found''"
    and d4: "retrieveDoc exampleDb ''a4'' = Inr \<lparr>assessmentId = Some ''a4''\<rparr>"
    and d5: "retrieveDoc exampleDb ''a5'' = Inr \<lparr>assessmentId = Some ''a5''\<rparr>"
    and d6: "retrieveDoc exampleDb ''a6'' = Inr \<lparr>assessmentId = Some ''a6''\<rparr>"
    and s4: "getSubtests exampleDb ''a4'' = Inl ''no_subtests''"
    and s5: "getSubtests exampleDb ''a5''
       = Inr ([subtestOf ''id'' ''i1''] @ subtestOf ''survey'' ''s9'' # [subtestOf ''gps'' ''s1''])"
    and s6: "getSubtests exampleDb ''a6''
       = Inr ([subtestOf ''id'' ''i1'']
              @ (subtestOf ''grid'' ''g9'')\<lparr>s_assessmentId := None\<rparr> # [subtestOf ''gps'' ''s1''])"
    by (simp_all add: exampleDb_def)
  have q: "getQuestionBySubtestId exampleDb (s_id (subtestOf ''survey'' ''s9'')) = Inl ''no_questions''"
    and r: "getResults exampleDb
        (orElse (s_assessmentId ((subtestOf ''grid'' ''g9'')\<lparr>s_assessmentId := None\<rparr>))
                (curriculumId ((subtestOf ''grid'' ''g9'')\<lparr>s_assessmentId := None\<rparr>)))
       = Inl ''no_results''"
    and p5: "prototype (subtestOf ''survey'' ''s9'') = ''survey''"
    and p6: "prototype ((subtestOf ''grid'' ''g9'')\<lparr>s_assessmentId := None\<rparr>) = ''grid''"
    and first: "\<forall>x \<in> set [subtestOf ''id'' ''i1'']. prototype x \<noteq> ''grid''"
    by (simp_all add: exampleDb_def subtestOf_def orElse_def truthy_def)
  have "\<exists>s. processSubtests exampleDb [subtestOf ''id'' ''i1'']
              (leadingColumns \<lparr>assessmentId = Some ''a5''\<rparr> 0, initialCounts) = Inr s"
    by (simp add: example_defs eval_defs)
  then obtain acc5 c5
    where pre5: "processSubtests exampleDb [subtestOf ''id'' ''i1'']
              (leadingColumns \<lparr>assessmentId = Some ''a5''\<rparr> 0, initialCounts) = Inr (acc5, c5)"
    by (cases) auto
  have "\<exists>s. processSubtests exampleDb [subtestOf ''id'' ''i1'']
              (leadingColumns \<lparr>assessmentId = Some ''a6''\<rparr> 0, initialCounts) = Inr s"
    by (simp add: example_defs eval_defs)
  then obtain acc6 c6
    where pre6: "processSubtests exampleDb [subtestOf ''id'' ''i1'']
              (leadingColumns \<lparr>assessmentId = Some ''a6''\<rparr> 0, initialCounts) = Inr (acc6, c6)"
    by (cases) auto
  from failures_propagate [of exampleDb "''zz''" "''not_found''" 0] d0
  have r0: "createColumnHeaders exampleDb ''zz'' 0 = Inl ''not_found''" by blast
  from failures_propagate [of exampleDb "''a4''" "''no_subtests''" 0
      "\<lparr>assessmentId = Some ''a4''\<rparr>"] d4 s4
  have r4: "createColumnHeaders exampleDb ''a4'' 0 = Inl ''no_subtests''" by blast
  from failures_propagate [of exampleDb "''a5''" "''no_questions''" 0
      "\<lparr>assessmentId = Some ''a5''\<rparr>" "[subtestOf ''id'' ''i1'']" "subtestOf ''survey'' ''s9''"
      "[subtestOf ''gps'' ''s1'']" acc5 c5] d5 s5 pre5 p5 q
  have r5: "createColumnHeaders exampleDb ''a5'' 0 = Inl ''no_questions''" by blast
  from failures_propagate [of exampleDb "''a6''" "''no_results''" 0
      "\<lparr>assessmentId = Some ''a6''\<rparr>" "[subtestOf ''id'' ''i1'']"
      "(subtestOf ''grid'' ''g9'')\<lparr>s_assessmentId := None\<rparr>"
      "[subtestOf ''gps'' ''s1'']" acc6 c6] d6 s6 pre6 p6 first r
  have r6: "createColumnHeaders exampleDb ''a6'' 0 = Inl ''no_results''" by blast
  have first': "prototype (subtestOf ''id'' ''i1'') \<noteq> ''grid''"
    by (simp add: subtestOf_def)
  from d0 r0 d4 s4 r4 s5 q r5 s6 first' r r6 show ?thesis by blast
qed


subsection \<open>Survey headers\<close>

lemma set_insertSorted: "set (insertSorted comparer x xs) = insert x (set xs)"
  by (induction xs) auto

lemma set_arraySort: "set (arraySort comparer xs) = set xs"
  by (induction xs) (simp_all add: arraySort_def set_insertSorted)

lemma set_sortBy: "set (sortBy collection iteratees) = set collection"
proof -
  let ?obj = "\<lambda>(index, v). (map (\<lambda>path. property path v) iteratees, index, v)"
  have comp: "(\<lambda>object. snd (snd object)) \<circ> ?obj = snd"
    by (rule ext) (simp add: case_prod_beta)
  have vals: "map (\<lambda>object. snd (snd object)) (map ?obj (enumerate 0 collection)) = collection"
    by (simp only: map_map comp map_snd_enumerate)
  have "set (sortBy collection iteratees)
        = (\<lambda>object. snd (snd object)) ` set (map ?obj (enumerate 0 collection))"
    by (simp only: sortBy_def set_map set_arraySort)
  also have "\<dots> = set (map (\<lambda>object. snd (snd object)) (map ?obj (enumerate 0 collection)))"
    by (simp only: set_map)
  finally show ?thesis
    by (simp only: vals)
qed

text \<open>
  C9. While \<open>surveyCount\<close> is positive, a question with more than two options gets one
  column per option index \<open>i\<close> from 1 to the number of options, in that order and next to
  each other, with the header \<open>name_i_count\<close> and the key \<open>id.name.i_count\<close>: the
  occurrence suffix follows the index and so sits on the last segment of the key.
\<close>

theorem survey_option_suffix:
  assumes "getQuestionBySubtestId db sid = Inr questions" and "0 < surveyCount c"
    and "q \<in> set questions" and "2 < length (q_options q)"
  shows "\<exists>before after.
           createSurvey db sid c =
             Inr (before
                  @ map (\<lambda>i. push (q_name q @ ''_'' @ showNat i @ ''_'' @ showNat (surveyCount c))
                               (sid @ ''.'' @ q_name q @ ''.'' @ showNat i
                                    @ ''_'' @ showNat (surveyCount c)))
                        [1 ..< Suc (length (q_options q))]
                  @ after)"
proof -
  let ?sfx = "suffixOf (int (surveyCount c))"
  let ?cols = "map (\<lambda>i. push (q_name q @ ''_'' @ showNat i @ ''_'' @ showNat (surveyCount c))
                               (sid @ ''.'' @ q_name q @ ''.'' @ showNat i
                                    @ ''_'' @ showNat (surveyCount c)))
                        [1 ..< Suc (length (q_options q))]"
  from assms(2) have sfx: "?sfx = ''_'' @ showNat (surveyCount c)"
    by (simp add: suffixOf_def)
  from assms(4) have own: "surveyQuestion sid ?sfx q = ?cols"
    by (simp add: surveyQuestion_def Let_def sfx)
  from assms(3) have "q \<in> set (sortBy questions [sid, ''order''])"
    by (simp add: set_sortBy)
  then obtain ys zs where split: "sortBy questions [sid, ''order''] = ys @ q # zs"
    by (auto simp: in_set_conv_decomp)
  have "createSurvey db sid c =
          Inr (concat (map (surveyQuestion sid ?sfx) ys) @ ?cols
               @ (concat (map (surveyQuestion sid ?sfx) zs)
                  @ [pushTimestamp sid (timestampCount c)]))"
    using assms(1) by (simp add: createSurvey_def Let_def split own)
  then show ?thesis by blast
qed

theorem survey_option_suffix_witness:
  "getQuestionBySubtestId exampleDb ''s2'' = Inr exampleQuestions
   \<and> 0 < surveyCount (initialCounts\<lparr>surveyCount := 1\<rparr>)
   \<and> questionOf ''colour'' 2 [''red'', ''green'', ''blue''] \<in> set exampleQuestions
   \<and> 2 < length (q_options (questionOf ''colour'' 2 [''red'', ''green'', ''blue'']))
   \<and> (\<exists>before after.
        createSurvey exampleDb ''s2'' (initialCounts\<lparr>surveyCount := 1\<rparr>) =
          Inr (before
               @ [push ''colour_1_1'' ''s2.colour.1_1'', push ''colour_2_1'' ''s2.colour.2_1'',
                  push ''colour_3_1'' ''s2.colour.3_1'']
               @ after))"
proof -
  have h1: "getQuestionBySubtestId exampleDb ''s2'' = Inr exampleQuestions"
    by (simp add: exampleDb_def)
  have h2: "0 < surveyCount (initialCounts\<lparr>surveyCount := 1\<rparr>)"
    by simp
  have h3: "questionOf ''colour'' 2 [''red'', ''green'', ''blue''] \<in> set exampleQuestions"
    by (simp add: exampleQuestions_def)
  have h4: "2 < length (q_options (questionOf ''colour'' 2 [''red'', ''green'', ''blue'']))"
    by (simp add: questionOf_def)
  have cols: "map (\<lambda>i. push (q_name (questionOf ''colour'' 2 [''red'', ''green'', ''blue''])
                               @ ''_'' @ showNat i @ ''_''
                               @ showNat (surveyCount (initialCounts\<lparr>surveyCount := 1\<rparr>)))
                            (''s2'' @ ''.'' @ q_name (questionOf ''colour'' 2 [''red'', ''green'', ''blue''])
                               @ ''.'' @ showNat i @ ''_''
                               @ showNat (surveyCount (initialCounts\<lparr>surveyCount := 1\<rparr>))))
                  [1 ..< Suc (length (q_options (questionOf ''colour'' 2 [''red'', ''green'', ''blue''])))]
      = [push ''colour_1_1'' ''s2.colour.1_1'', push ''colour_2_1'' ''s2.colour.2_1'',
         push ''colour_3_1'' ''s2.colour.3_1'']"
    by (simp add: questionOf_def upt_rec showNat.simps)
  from survey_option_suffix [OF h1 h2 h3 h4] h1 h2 h3 h4 show ?thesis
    unfolding cols by blast
qed

subsection \<open>The order of the survey questions\<close>

text \<open>When no question document has a value at the path that is the subtest's \<open>_id\<close>,
  the first criterion is undefined everywhere and \<open>sortBy\<close> is the stable sort by
  \<open>order\<close>.\<close>

lemma compareMultiple_by_order:
  assumes "n < i"
  shows "(compareMultiple ([Undefined, Num a], n, v) ([Undefined, Num b], i, w) \<le> 0) = (a \<le> b)"
  using assms by (auto simp: compareMultiple_def compareAscending_def Let_def)

lemma insertSorted_by_order:
  assumes "\<forall>t \<in> set ts. fst t = [Undefined, Num (q_order (snd (snd t)))] \<and> n < fst (snd t)"
  shows "map (\<lambda>t. snd (snd t)) (insertSorted compareMultiple ([Undefined, Num (q_order q)], n, q) ts)
         = insort_key q_order q (map (\<lambda>t. snd (snd t)) ts)"
  using assms
proof (induction ts)
  case Nil
  show ?case by simp
next
  case (Cons t ts)
  obtain cs i w where t: "t = (cs, i, w)" by (cases t)
  from Cons.prems t have cs: "cs = [Undefined, Num (q_order w)]" and i: "n < i"
    by simp_all
  from Cons.prems have rest: "\<forall>t \<in> set ts. fst t = [Undefined, Num (q_order (snd (snd t)))] \<and> n < fst (snd t)"
    by simp
  show ?case
    using Cons.IH [OF rest]
    by (simp add: t cs compareMultiple_by_order [OF i])
qed

lemma arraySort_by_order:
  assumes "\<forall>q \<in> set qs. property sid q = Undefined"
  shows "map (\<lambda>t. snd (snd t))
           (arraySort compareMultiple
              (map (\<lambda>(index, v). (map (\<lambda>path. property path v) [sid, ''order''], index, v))
                   (enumerate n qs)))
         = sort_key q_order qs"
  using assms
proof (induction qs arbitrary: n)
  case Nil
  show ?case by (simp add: arraySort_def)
next
  case (Cons q qs)
  let ?obj = "\<lambda>(index, v). (map (\<lambda>path. property path v) [sid, ''order''], index, v)"
  let ?tail = "arraySort compareMultiple (map ?obj (enumerate (Suc n) qs))"
  from Cons.prems have q: "property sid q = Undefined"
    and qs: "\<forall>q \<in> set qs. property sid q = Undefined"
    by simp_all
  have inv: "\<forall>t \<in> set ?tail. fst t = [Undefined, Num (q_order (snd (snd t)))] \<and> n < fst (snd t)"
    using qs by (auto simp: set_arraySort in_set_enumerate_eq property_def)
  have order: "property ''order'' v = Num (q_order v)" for v
    by (simp add: property_def)
  have step: "arraySort compareMultiple (map ?obj (enumerate n (q # qs)))
        = insertSorted compareMultiple ([Undefined, Num (q_order q)], n, q) ?tail"
    using q by (simp add: arraySort_def order)
  have "map (\<lambda>t. snd (snd t)) (arraySort compareMultiple (map ?obj (enumerate n (q # qs))))
        = map (\<lambda>t. snd (snd t))
            (insertSorted compareMultiple ([Undefined, Num (q_order q)], n, q) ?tail)"
    by (simp only: step)
  also have "\<dots> = insort_key q_order q (map (\<lambda>t. snd (snd t)) ?tail)"
    by (rule insertSorted_by_order [OF inv])
  also have "map (\<lambda>t. snd (snd t)) ?tail = sort_key q_order qs"
    by (rule Cons.IH [OF qs])
  finally show ?case by simp
qed

lemma sortBy_by_order:
  assumes "\<forall>q \<in> set qs. property sid q = Undefined"
  shows "sortBy qs [sid, ''order''] = sort_key q_order qs"
  using arraySort_by_order [OF assms, of 0] by (simp add: sortBy_def)

lemma createSurvey_by_order:
  assumes "getQuestionBySubtestId db sid = Inr questions"
    and "\<forall>q \<in> set questions. property sid q = Undefined"
  shows "createSurvey db sid c =
           Inr (concat (map (surveyQuestion sid (suffixOf (int (surveyCount c))))
                            (sort_key q_order questions))
                @ [pushTimestamp sid (timestampCount c)])"
  using assms(1) by (simp add: createSurvey_def Let_def sortBy_by_order [OF assms(2)])

text \<open>
  C4. The claim is that the question columns come out in ascending \<open>order\<close>, whatever
  order the database returned the questions in. The code sorts by the value at the path
  \<open>id\<close> first, and by \<open>order\<close> only among questions that agree there. For the survey
  subtest whose \<open>_id\<close> is \<open>name\<close>, with the questions \<open>b\<close> (order 1) and \<open>a\<close> (order 2), the
  first path reads the names: the column of \<open>a\<close> comes before the column of \<open>b\<close>.
\<close>

theorem createSurvey_sorts_by_id_path_first:
  "getQuestionBySubtestId exampleDb ''name'' = Inr [questionOf ''b'' 1 [], questionOf ''a'' 2 []]
   \<and> createSurvey exampleDb ''name'' initialCounts
       = Inr [push ''a'' ''name.a'', push ''b'' ''name.b'', pushTimestamp ''name'' 0]
   \<and> sort_key q_order [questionOf ''b'' 1 [], questionOf ''a'' 2 []]
       = [questionOf ''b'' 1 [], questionOf ''a'' 2 []]"
  by (simp add: exampleDb_def questionOf_def createSurvey_def surveyQuestion_def sort_defs
        suffixOf_def initialCounts_def Let_def)

end
